theory Spec2Isabelle
  imports Main "HOL-Library.AList" "HOL-Library.Char_ord" "HOL-Library.List_Lexorder"
begin

section \<open>Python values and exceptions\<close>

text \<open>
  The values that flow through the generated bindings and the DOM facade.
  \<open>PObj j\<close> is an instance of a generated CDP class, seen through the only
  method the callers use: its \<open>to_json()\<close> returns \<open>j\<close>.
\<close>

datatype pyval =
    PNone
  | PBool bool
  | PInt int
  | PStr string
  | PList "pyval list"
  | PTuple "pyval list"
  | PDict "(string \<times> pyval) list"
  | PObj pyval


text \<open>Truthiness of an optional string (\<open>None\<close> and \<open>""\<close> are falsy).\<close>

fun truthy_str :: "string option \<Rightarrow> bool" where
  "truthy_str None = False"
| "truthy_str (Some s) = (s \<noteq> [])"

datatype error =
    AssertionError
  | KeyError string
  | ValueError
  | IndexError
  | AttributeError
  | TypeError
  | NameError
  | SyntaxError
  | RuntimeError
  | NodeIsNone
  | ProtocolException "string option"
  | ConnectionClosed

section \<open>The DOM facade: nodes and element handles (zendriver/core/element.py)\<close>

text \<open>
  \<open>cdp.dom.Node\<close> is a generated class; the fields the facade reads are kept.
  An absent list (\<open>None\<close>) and an empty list are both falsy and are both \<open>[]\<close> here.
\<close>

datatype Node = Node
  (node_id: int)
  (parent_id: "int option")
  (backend_node_id: "int option")
  (node_type: int)
  (node_name: string)
  (node_value: string)
  (child_node_count: "int option")
  (children: "Node list")
  (attributes: "string list option")
  (content_document: "Node option")
  (shadow_roots: "Node list")

text \<open>
  An element handle. \<open>elem_tab\<close> identifies the session (tab) the handle belongs
  to; \<open>elem_last\<close> is the dynamic attribute \<open>__last\<close> that the selector queries
  set and delete on the handle (\<open>False\<close>: the attribute is not set).
  \<open>elem_attrs\<close> is the attribute map in insertion order.
\<close>

record Element =
  elem_tab :: nat
  elem_node :: Node
  elem_tree :: "Node option"
  elem_remote_object :: "pyval option"
  elem_attrs :: "(string \<times> pyval) list"
  elem_last :: bool

text \<open>
  \<open>Element._make_attrs\<close>: the loop over \<open>enumerate(self.node.attributes)\<close>, with
  the index \<open>i\<close>, the saved key \<open>sav\<close> and the attribute map as loop state.
\<close>

fun make_attrs_loop ::
  "nat \<Rightarrow> string list \<Rightarrow> string option \<Rightarrow> (string \<times> pyval) list \<Rightarrow> (string \<times> pyval) list" where
  "make_attrs_loop i [] sav attrs = attrs"
| "make_attrs_loop i (a # as) sav attrs =
     (if i = 0 \<or> i mod 2 = 0
      then make_attrs_loop (Suc i) as (Some (if a = ''class'' then ''class_'' else a)) attrs
      else (if truthy_str sav
            then make_attrs_loop (Suc i) as sav (AList.update (the sav) (PStr a) attrs)
            else make_attrs_loop (Suc i) as sav attrs))"

definition make_attrs :: "Node \<Rightarrow> (string \<times> pyval) list \<Rightarrow> (string \<times> pyval) list" where
  "make_attrs n attrs =
     (case attributes n of
        None \<Rightarrow> attrs
      | Some as \<Rightarrow> (if as = [] then attrs else make_attrs_loop 0 as None attrs))"

text \<open>
  \<open>Element.__init__\<close> through the factory \<open>create(node, tab, tree)\<close>: a missing
  node raises, otherwise the attribute map starts empty and is filled by
  \<open>_make_attrs\<close>.
\<close>

definition create :: "Node option \<Rightarrow> nat \<Rightarrow> Node option \<Rightarrow> error + Element" where
  "create node tab tree =
     (case node of
        None \<Rightarrow> Inl NodeIsNone
      | Some n \<Rightarrow>
          Inr \<lparr> elem_tab = tab, elem_node = n, elem_tree = tree,
                elem_remote_object = None, elem_attrs = make_attrs n [],
                elem_last = False \<rparr>)"



text \<open>
  \<open>Element.__eq__(self, other)\<close>. The other operand is any Python object:
  \<open>Inl\<close> an element handle, \<open>Inr\<close> anything else. A backend node id is truthy
  when it is present and not zero.
\<close>

fun truthy_id :: "int option \<Rightarrow> bool" where
  "truthy_id None = False"
| "truthy_id (Some n) = (n \<noteq> 0)"

definition backend_node_id_of :: "Element \<Rightarrow> int option" where
  "backend_node_id_of e = backend_node_id (elem_node e)"

definition Element_eq :: "Element \<Rightarrow> Element + pyval \<Rightarrow> bool" where
  "Element_eq self other =
     (case other of
        Inr v \<Rightarrow> False
      | Inl o' \<Rightarrow>
          (if truthy_id (backend_node_id_of o') \<and> truthy_id (backend_node_id_of self)
           then backend_node_id_of o' = backend_node_id_of self
           else False))"

section \<open>The CDP code generator (scripts/generate\_cdp.py)\<close>

subsection \<open>Name conversion\<close>

definition ascii_upper :: string where
  "ascii_upper = ''ABCDEFGHIJKLMNOPQRSTUVWXYZ''"

definition ascii_lower :: string where
  "ascii_lower = ''abcdefghijklmnopqrstuvwxyz''"

definition ascii_digit :: string where
  "ascii_digit = ''0123456789''"

definition is_upper :: "char \<Rightarrow> bool" where
  "is_upper c = (c \<in> set ascii_upper)"

definition is_lower :: "char \<Rightarrow> bool" where
  "is_lower c = (c \<in> set ascii_lower)"

definition is_digit :: "char \<Rightarrow> bool" where
  "is_digit c = (c \<in> set ascii_digit)"

definition to_lower :: "char \<Rightarrow> char" where
  "to_lower c = (case map_of (zip ascii_upper ascii_lower) c of None \<Rightarrow> c | Some l \<Rightarrow> l)"

text \<open>
  \<open>inflection.underscore\<close> is a function of the third-party library the
  generator imports, not of this repository. It is four steps on the word:
  \<^verbatim>\<open>re.sub(r"([A-Z]+)([A-Z][a-z])", r'\1_\2', word)\<close>, then
  \<^verbatim>\<open>re.sub(r"([a-z\d])([A-Z])", r'\1_\2', word)\<close>, then \<open>-\<close> replaced by \<open>_\<close>,
  then lower case. On ASCII words the first substitution puts an underscore
  before the last capital of a run of capitals that a small letter follows
  (\<open>underscore_acronyms\<close>), and the second between a small letter or digit and a
  capital that follows it (\<open>underscore_words\<close>): matches cannot overlap, since the
  first always ends in a small letter and the second in a capital.
\<close>

fun underscore_acronyms :: "string \<Rightarrow> string" where
  "underscore_acronyms (a # b # c # rest) =
     (if is_upper a \<and> is_upper b \<and> is_lower c
      then a # CHR ''_'' # underscore_acronyms (b # c # rest)
      else a # underscore_acronyms (b # c # rest))"
| "underscore_acronyms s = s"

fun underscore_words :: "string \<Rightarrow> string" where
  "underscore_words (a # b # rest) =
     (if (is_lower a \<or> is_digit a) \<and> is_upper b
      then a # CHR ''_'' # underscore_words (b # rest)
      else a # underscore_words (b # rest))"
| "underscore_words s = s"

definition underscore :: "string \<Rightarrow> string" where
  "underscore word =
     map to_lower
       (map (\<lambda>c. if c = CHR ''-'' then CHR ''_'' else c)
         (underscore_words (underscore_acronyms word)))"

text \<open>
  The names \<open>n\<close> for which \<open>getattr(builtins, n)\<close> succeeds in CPython 3: the
  names the \<open>builtins\<close> module defines, and the attributes every module object
  has. Keywords of the language (\<open>class\<close>, \<open>def\<close>, \<open>from\<close>, ...) are not
  attributes of the module.
\<close>

definition builtins_names :: "string list" where
  "builtins_names =
   [''ArithmeticError'', ''AssertionError'', ''AttributeError'', ''BaseException'',
    ''BaseExceptionGroup'', ''BlockingIOError'', ''BrokenPipeError'', ''BufferError'',
    ''BytesWarning'', ''ChildProcessError'', ''ConnectionAbortedError'', ''ConnectionError'',
    ''ConnectionRefusedError'', ''ConnectionResetError'', ''DeprecationWarning'', ''EOFError'',
    ''Ellipsis'', ''EncodingWarning'', ''EnvironmentError'', ''Exception'', ''ExceptionGroup'',
    ''False'', ''FileExistsError'', ''FileNotFoundError'', ''FloatingPointError'',
    ''FutureWarning'', ''GeneratorExit'', ''IOError'', ''ImportError'', ''ImportWarning'',
    ''IndentationError'', ''IndexError'', ''InterruptedError'', ''IsADirectoryError'',
    ''KeyError'', ''KeyboardInterrupt'', ''LookupError'', ''MemoryError'',
    ''ModuleNotFoundError'', ''NameError'', ''None'', ''NotADirectoryError'',
    ''NotImplemented'', ''NotImplementedError'', ''OSError'', ''OverflowError'',
    ''PendingDeprecationWarning'', ''PermissionError'', ''ProcessLookupError'',
    ''RecursionError'', ''ReferenceError'', ''ResourceWarning'', ''RuntimeError'',
    ''RuntimeWarning'', ''StopAsyncIteration'', ''StopIteration'', ''SyntaxError'',
    ''SyntaxWarning'', ''SystemError'', ''SystemExit'', ''TabError'', ''TimeoutError'',
    ''True'', ''TypeError'', ''UnboundLocalError'', ''UnicodeDecodeError'',
    ''UnicodeEncodeError'', ''UnicodeError'', ''UnicodeTranslateError'', ''UnicodeWarning'',
    ''UserWarning'', ''ValueError'', ''Warning'', ''ZeroDivisionError'',
    ''__build_class__'', ''__debug__'', ''__doc__'', ''__import__'', ''__loader__'',
    ''__name__'', ''__package__'', ''__spec__'',
    ''__class__'', ''__delattr__'', ''__dict__'', ''__dir__'', ''__eq__'', ''__format__'',
    ''__ge__'', ''__getattribute__'', ''__gt__'', ''__hash__'', ''__init__'',
    ''__init_subclass__'', ''__le__'', ''__lt__'', ''__ne__'', ''__new__'', ''__reduce__'',
    ''__reduce_ex__'', ''__repr__'', ''__setattr__'', ''__sizeof__'', ''__str__'',
    ''__subclasshook__'',
    ''abs'', ''aiter'', ''all'', ''anext'', ''any'', ''ascii'', ''bin'', ''bool'',
    ''breakpoint'', ''bytearray'', ''bytes'', ''callable'', ''chr'', ''classmethod'',
    ''compile'', ''complex'', ''copyright'', ''credits'', ''delattr'', ''dict'', ''dir'',
    ''divmod'', ''enumerate'', ''eval'', ''exec'', ''exit'', ''filter'', ''float'',
    ''format'', ''frozenset'', ''getattr'', ''globals'', ''hasattr'', ''hash'', ''help'',
    ''hex'', ''id'', ''input'', ''int'', ''isinstance'', ''issubclass'', ''iter'', ''len'',
    ''license'', ''list'', ''locals'', ''map'', ''max'', ''memoryview'', ''min'', ''next'',
    ''object'', ''oct'', ''open'', ''ord'', ''pow'', ''print'', ''property'', ''quit'',
    ''range'', ''repr'', ''reversed'', ''round'', ''set'', ''setattr'', ''slice'',
    ''sorted'', ''staticmethod'', ''str'', ''sum'', ''super'', ''tuple'', ''type'',
    ''vars'', ''zip'']"

definition is_builtin :: "string \<Rightarrow> bool" where
  "is_builtin name = (name \<in> set builtins_names)"

definition snake_case :: "string \<Rightarrow> string" where
  "snake_case name =
     (let name' = underscore name
      in if is_builtin name' then name' @ ''_'' else name')"

subsection \<open>The schema as parsed: the generator's dataclasses\<close>

record CdpItems =
  items_type :: string
  items_ref :: string

text \<open>\<open>CdpParameter\<close> and \<open>CdpReturn\<close> are subclasses with the same fields.\<close>

record CdpProperty =
  prop_name :: string
  prop_description :: "string option"
  prop_type :: "string option"
  prop_ref :: "string option"
  prop_enum :: "string list"
  prop_items :: "CdpItems option"
  prop_optional :: bool
  prop_experimental :: bool
  prop_deprecated :: bool
  prop_domain :: string

record CdpType =
  type_id :: string
  type_description :: "string option"
  type_type :: string
  type_items :: "CdpItems option"
  type_enum :: "string list"
  type_properties :: "CdpProperty list"

record CdpCommand =
  cmd_name :: string
  cmd_description :: "string option"
  cmd_experimental :: bool
  cmd_deprecated :: bool
  cmd_parameters :: "CdpProperty list"
  cmd_returns :: "CdpProperty list"
  cmd_domain :: string

record CdpEvent =
  event_name :: string
  event_description :: "string option"
  event_deprecated :: bool
  event_experimental :: bool
  event_parameters :: "CdpProperty list"
  event_domain :: string

record CdpDomain =
  domain_name :: string
  domain_description :: "string option"
  domain_experimental :: bool
  domain_dependencies :: "string list"
  domain_types :: "CdpType list"
  domain_commands :: "CdpCommand list"
  domain_events :: "CdpEvent list"

definition py_name :: "CdpProperty \<Rightarrow> string" where
  "py_name p = snake_case (prop_name p)"



subsection \<open>The schema documents and their parsing\<close>











text \<open>A list comprehension whose element expression may raise.\<close>

fun traverse :: "('a \<Rightarrow> error + 'b) \<Rightarrow> 'a list \<Rightarrow> error + 'b list" where
  "traverse f [] = Inr []"
| "traverse f (x # xs) =
     (case f x of
        Inl e \<Rightarrow> Inl e
      | Inr y \<Rightarrow> (case traverse f xs of Inl e \<Rightarrow> Inl e | Inr ys \<Rightarrow> Inr (y # ys)))"











subsection \<open>The patches of the upstream schema\<close>

text \<open>
  \<open>fix_protocol_spec(domains)\<close> mutates the domain list in place; here it returns
  the patched list. Each inner \<open>for ... break\<close> loop is a recursion that stops at
  the first match. \<open>cmd.parameters[1]\<close> raises \<open>IndexError\<close> on a command with fewer
  than two parameters.
\<close>

fun patch_resolveNode :: "CdpCommand list \<Rightarrow> error + CdpCommand list" where
  "patch_resolveNode [] = Inr []"
| "patch_resolveNode (cmd # cmds) =
     (if cmd_name cmd = ''resolveNode''
      then (if length (cmd_parameters cmd) < 2 then Inl IndexError
            else Inr (cmd\<lparr>cmd_parameters :=
                        (cmd_parameters cmd)
                          [1 := (cmd_parameters cmd ! 1)\<lparr>prop_ref := Some ''BackendNodeId''\<rparr>]\<rparr>
                      # cmds))
      else (case patch_resolveNode cmds of
              Inl e \<Rightarrow> Inl e
            | Inr cmds' \<Rightarrow> Inr (cmd # cmds')))"

definition strip_backticks :: "string option \<Rightarrow> string" where
  "strip_backticks description =
     filter (\<lambda>c. c \<noteq> CHR 0x60) (if truthy_str description then the description else [])"

fun patch_screencast :: "CdpEvent list \<Rightarrow> CdpEvent list" where
  "patch_screencast [] = []"
| "patch_screencast (event # events) =
     (if event_name event = ''screencastVisibilityChanged''
      then event\<lparr>event_description := Some (strip_backticks (event_description event))\<rparr> # events
      else event # patch_screencast events)"

fun patch_expires :: "CdpProperty list \<Rightarrow> CdpProperty list" where
  "patch_expires [] = []"
| "patch_expires (prop # props) =
     (if prop_name prop = ''expires''
      then prop\<lparr>prop_optional := True\<rparr> # props
      else prop # patch_expires props)"

fun patch_cookie :: "CdpType list \<Rightarrow> CdpType list" where
  "patch_cookie [] = []"
| "patch_cookie (t # ts) =
     (if type_id t = ''Cookie''
      then t\<lparr>type_properties := patch_expires (type_properties t)\<rparr> # patch_cookie ts
      else t # patch_cookie ts)"

fun fix_protocol_spec :: "CdpDomain list \<Rightarrow> error + CdpDomain list" where
  "fix_protocol_spec [] = Inr []"
| "fix_protocol_spec (domain # domains) =
     (if domain_name domain = ''DOM''
      then (case patch_resolveNode (domain_commands domain) of
              Inl e \<Rightarrow> Inl e
            | Inr cmds \<Rightarrow>
                (case fix_protocol_spec domains of
                   Inl e \<Rightarrow> Inl e
                 | Inr domains' \<Rightarrow> Inr (domain\<lparr>domain_commands := cmds\<rparr> # domains')))
      else if domain_name domain = ''Page''
      then (case fix_protocol_spec domains of
              Inl e \<Rightarrow> Inl e
            | Inr domains' \<Rightarrow>
                Inr (domain\<lparr>domain_events := patch_screencast (domain_events domain)\<rparr>
                     # domains'))
      else if domain_name domain = ''Network''
      then (case fix_protocol_spec domains of
              Inl e \<Rightarrow> Inl e
            | Inr domains' \<Rightarrow>
                Inr (domain\<lparr>domain_types := patch_cookie (domain_types domain)\<rparr>
                     # domains'))
      else (case fix_protocol_spec domains of
              Inl e \<Rightarrow> Inl e
            | Inr domains' \<Rightarrow> Inr (domain # domains')))"

text \<open>What the claims about the patches observe in a domain list.\<close>

definition cookie_types :: "CdpDomain list \<Rightarrow> CdpType list" where
  "cookie_types domains =
     concat (map (\<lambda>d. filter (\<lambda>t. type_id t = ''Cookie'') (domain_types d))
                 (filter (\<lambda>d. domain_name d = ''Network'') domains))"

definition resolveNode_commands :: "CdpDomain list \<Rightarrow> CdpCommand list" where
  "resolveNode_commands domains =
     concat (map (\<lambda>d. (case find (\<lambda>c. cmd_name c = ''resolveNode'') (domain_commands d) of
                          None \<Rightarrow> [] | Some c \<Rightarrow> [c]))
                 (filter (\<lambda>d. domain_name d = ''DOM'') domains))"

definition expires_property :: "CdpType \<Rightarrow> CdpProperty option" where
  "expires_property t = find (\<lambda>p. prop_name p = ''expires'') (type_properties t)"

text \<open>\<open>t\<close> with each property's \<open>optional\<close> flag blanked: every other field, the order and the number of the properties.\<close>

definition properties_but_optional :: "CdpType \<Rightarrow> CdpProperty list" where
  "properties_but_optional t = map (\<lambda>p. p\<lparr>prop_optional := False\<rparr>) (type_properties t)"

subsection \<open>The driver\<close>




subsection \<open>Type annotations and references\<close>

text \<open>The members of the enum \<open>CdpPrimitiveType\<close> with their values.\<close>

definition CdpPrimitiveType :: "(string \<times> string) list" where
  "CdpPrimitiveType =
     [(''boolean'', ''bool''), (''integer'', ''int''), (''number'', ''float''),
      (''object'', ''dict''), (''string'', ''str'')]"

definition get_annotation :: "string option \<Rightarrow> error + string" where
  "get_annotation cdp_type =
     (if \<not> truthy_str cdp_type \<or> cdp_type = Some ''any'' then Inr ''typing.Any''
      else (case map_of CdpPrimitiveType (the cdp_type) of
              None \<Rightarrow> Inl (KeyError (the cdp_type))
            | Some v \<Rightarrow> Inr v))"

text \<open>
  \<open>get_constructor(cdp_type, val)\<close> returns the text \<open>cons(val)\<close>, or \<open>val\<close> alone
  for an untyped value; here it returns the constructor's name, if any.
\<close>

definition get_constructor :: "string option \<Rightarrow> error + string option" where
  "get_constructor cdp_type =
     (if \<not> truthy_str cdp_type \<or> cdp_type = Some ''any'' then Inr None
      else (case map_of CdpPrimitiveType (the cdp_type) of
              None \<Rightarrow> Inl (KeyError (the cdp_type))
            | Some v \<Rightarrow> Inr (Some v)))"

text \<open>\<open>str.split(".")\<close>.\<close>

fun split_on :: "char \<Rightarrow> string \<Rightarrow> string list" where
  "split_on c [] = [[]]"
| "split_on c (x # xs) =
     (if x = c then [] # split_on c xs
      else (case split_on c xs of
              [] \<Rightarrow> [[x]]
            | w # ws \<Rightarrow> (x # w) # ws))"

definition ref_to_python :: "string \<Rightarrow> error + string" where
  "ref_to_python ref =
     (if CHR ''.'' \<in> set ref
      then (case split_on (CHR ''.'') ref of
              [domain, subtype] \<Rightarrow> Inr (snake_case domain @ ''.'' @ subtype)
            | _ \<Rightarrow> Inl ValueError)
      else Inr ref)"

definition ref_to_python_domain :: "string \<Rightarrow> string \<Rightarrow> error + string" where
  "ref_to_python_domain ref domain =
     (if take (length domain + 1) ref = domain @ ''.''
      then ref_to_python (drop (length domain + 1) ref)
      else ref_to_python ref)"

definition optional_annotation :: "bool \<Rightarrow> string \<Rightarrow> string" where
  "optional_annotation opt ann = (if opt then ''typing.Optional['' @ ann @ '']'' else ann)"

definition list_annotation :: "string \<Rightarrow> string" where
  "list_annotation ann = ''typing.List['' @ ann @ '']''"

text \<open>\<open>CdpProperty.py_annotation\<close>: references are resolved relative to the property's domain.\<close>

definition py_annotation :: "CdpProperty \<Rightarrow> error + string" where
  "py_annotation p =
     (case (case prop_items p of
              Some items \<Rightarrow>
                (if items_ref items \<noteq> []
                 then (case ref_to_python_domain (items_ref items) (prop_domain p) of
                         Inl e \<Rightarrow> Inl e | Inr r \<Rightarrow> Inr (list_annotation r))
                 else (case get_annotation (Some (items_type items)) of
                         Inl e \<Rightarrow> Inl e | Inr a \<Rightarrow> Inr (list_annotation a)))
            | None \<Rightarrow>
                (if truthy_str (prop_ref p)
                 then ref_to_python_domain (the (prop_ref p)) (prop_domain p)
                 else get_annotation (prop_type p))) of
        Inl e \<Rightarrow> Inl e
      | Inr ann \<Rightarrow> Inr (optional_annotation (prop_optional p) ann))"


subsection \<open>The generated code\<close>

text \<open>
  The generator emits Python text from fixed templates. The templates are kept as
  syntax trees, one constructor per template, so that the emitted code can be run.

  A variable of the emitted code is \<open>self.x\<close> (in a method of a generated class)
  or \<open>x\<close> (a parameter of a generated command function).
\<close>

datatype var = SelfAttr string | Local string

text \<open>
  The right-hand sides of \<open>generate_to_json\<close>:
  \<^verbatim>\<open>[i.to_json() for i in v]\<close>, \<^verbatim>\<open>[i for i in v]\<close>, \<^verbatim>\<open>v.to_json()\<close> and \<^verbatim>\<open>v\<close>.
\<close>

datatype to_json_expr = ListToJson var | ListItems var | CallToJson var | Value var

text \<open>
  \<^verbatim>\<open>dict_['name'] = expr\<close>, alone or under \<^verbatim>\<open>if v is not None:\<close>.
\<close>

datatype to_json_stmt =
    Assign string string to_json_expr
  | IfNotNone var to_json_stmt

definition generate_to_json :: "CdpProperty \<Rightarrow> string \<Rightarrow> bool \<Rightarrow> to_json_stmt" where
  "generate_to_json p dict' use_self =
     (let v = (if use_self then SelfAttr (py_name p) else Local (py_name p));
          assign = Assign dict' (prop_name p)
            (case prop_items p of
               Some items \<Rightarrow> (if items_ref items \<noteq> [] then ListToJson v else ListItems v)
             | None \<Rightarrow> (if truthy_str (prop_ref p) then CallToJson v else Value v))
      in if prop_optional p then IfNotNone v assign else assign)"

text \<open>
  The expressions of \<open>generate_from_json\<close>, each with the name of the dictionary
  and the key it reads:
  \<^verbatim>\<open>[R.from_json(i) for i in d['k']]\<close>, \<^verbatim>\<open>[cons(i) for i in d['k']]\<close>,
  \<^verbatim>\<open>R.from_json(d['k'])\<close>, \<^verbatim>\<open>cons(d['k'])\<close> and
  \<^verbatim>\<open>expr if d.get('k', None) is not None else None\<close>.
\<close>

datatype from_json_expr =
    ListRefFromJson string string string
  | ListCons "string option" string string
  | RefFromJson string string string
  | Cons "string option" string string
  | IfPresent string string from_json_expr

definition generate_from_json :: "CdpProperty \<Rightarrow> string \<Rightarrow> error + from_json_expr" where
  "generate_from_json p dict' =
     (case (case prop_items p of
              Some items \<Rightarrow>
                (if items_ref items \<noteq> []
                 then (case ref_to_python_domain (items_ref items) (prop_domain p) of
                         Inl e \<Rightarrow> Inl e
                       | Inr py_ref \<Rightarrow> Inr (ListRefFromJson py_ref dict' (prop_name p)))
                 else (case get_constructor (Some (items_type items)) of
                         Inl e \<Rightarrow> Inl e
                       | Inr cons \<Rightarrow> Inr (ListCons cons dict' (prop_name p))))
            | None \<Rightarrow>
                (if truthy_str (prop_ref p)
                 then (case ref_to_python_domain (the (prop_ref p)) (prop_domain p) of
                         Inl e \<Rightarrow> Inl e
                       | Inr py_ref \<Rightarrow> Inr (RefFromJson py_ref dict' (prop_name p)))
                 else (case get_constructor (prop_type p) of
                         Inl e \<Rightarrow> Inl e
                       | Inr cons \<Rightarrow> Inr (Cons cons dict' (prop_name p))))) of
        Inl e \<Rightarrow> Inl e
      | Inr expr \<Rightarrow>
          Inr (if prop_optional p then IfPresent dict' (prop_name p) expr else expr))"

text \<open>
  A generated class (\<open>CdpType.generate_class_code\<close>): the declared fields (name,
  annotation, whether \<open>= None\<close> is the default), the statements of \<open>to_json\<close>
  between \<open>json = dict()\<close> and \<open>return json\<close>, and the keyword arguments of the
  constructor call in \<open>from_json\<close>. The properties are sorted so that the
  optional ones come last; the sort is stable.
\<close>

record generated_class =
  gc_name :: string
  gc_fields :: "(string \<times> string \<times> bool) list"
  gc_to_json :: "to_json_stmt list"
  gc_from_json :: "(string \<times> from_json_expr) list"

definition generate_decl :: "CdpProperty \<Rightarrow> error + (string \<times> string \<times> bool)" where
  "generate_decl p =
     (case py_annotation p of
        Inl e \<Rightarrow> Inl e
      | Inr ann \<Rightarrow> Inr (py_name p, ann, prop_optional p))"

definition generate_class_code :: "CdpType \<Rightarrow> error + generated_class" where
  "generate_class_code t =
     (let props = sort_key prop_optional (type_properties t)
      in case traverse generate_decl props of
           Inl e \<Rightarrow> Inl e
         | Inr decls \<Rightarrow>
             (case traverse (\<lambda>p. case generate_from_json p ''json'' of
                                   Inl e \<Rightarrow> Inl e
                                 | Inr from_json \<Rightarrow> Inr (py_name p, from_json)) props of
                Inl e \<Rightarrow> Inl e
              | Inr from_jsons \<Rightarrow>
                  Inr \<lparr> gc_name = type_id t,
                        gc_fields = decls,
                        gc_to_json = map (\<lambda>p. generate_to_json p ''json'' True) props,
                        gc_from_json = from_jsons \<rparr>))"



fun join :: "string \<Rightarrow> string list \<Rightarrow> string" where
  "join sep [] = []"
| "join sep [x] = x"
| "join sep (x # y # ys) = x @ sep @ join sep (y # ys)"





subsection \<open>Running the generated code\<close>

text \<open>
  The variables in scope are one association list: the fields of \<open>self\<close> in a
  method, the bound parameters in a command function.
\<close>

fun lookup_var :: "(string \<times> pyval) list \<Rightarrow> var \<Rightarrow> error + pyval" where
  "lookup_var env (SelfAttr x) =
     (case map_of env x of None \<Rightarrow> Inl AttributeError | Some a \<Rightarrow> Inr a)"
| "lookup_var env (Local x) =
     (case map_of env x of None \<Rightarrow> Inl NameError | Some a \<Rightarrow> Inr a)"

text \<open>\<open>x.to_json()\<close>: only an instance of a generated class has the method.\<close>

fun to_json_call :: "pyval \<Rightarrow> error + pyval" where
  "to_json_call (PObj j) = Inr j"
| "to_json_call v = Inl AttributeError"

text \<open>
  \<open>for i in x\<close>: lists and tuples give their elements, a string its characters, a
  dictionary its keys, an instance of a generated list type (its \<open>to_json()\<close> is
  the list itself) its elements; nothing else is iterable.
\<close>

fun py_iter :: "pyval \<Rightarrow> error + pyval list" where
  "py_iter (PList xs) = Inr xs"
| "py_iter (PTuple xs) = Inr xs"
| "py_iter (PStr s) = Inr (map (\<lambda>c. PStr [c]) s)"
| "py_iter (PDict kvs) = Inr (map (\<lambda>kv. PStr (fst kv)) kvs)"
| "py_iter (PObj (PList xs)) = Inr xs"
| "py_iter v = Inl TypeError"

fun eval_to_json_expr :: "(string \<times> pyval) list \<Rightarrow> to_json_expr \<Rightarrow> error + pyval" where
  "eval_to_json_expr env (ListToJson v) =
     (case lookup_var env v of
        Inl e \<Rightarrow> Inl e
      | Inr x \<Rightarrow>
          (case py_iter x of
             Inl e \<Rightarrow> Inl e
           | Inr xs \<Rightarrow> (case traverse to_json_call xs of
                          Inl e \<Rightarrow> Inl e | Inr js \<Rightarrow> Inr (PList js))))"
| "eval_to_json_expr env (ListItems v) =
     (case lookup_var env v of
        Inl e \<Rightarrow> Inl e
      | Inr x \<Rightarrow> (case py_iter x of Inl e \<Rightarrow> Inl e | Inr xs \<Rightarrow> Inr (PList xs)))"
| "eval_to_json_expr env (CallToJson v) =
     (case lookup_var env v of Inl e \<Rightarrow> Inl e | Inr x \<Rightarrow> to_json_call x)"
| "eval_to_json_expr env (Value v) = lookup_var env v"

fun exec_to_json ::
  "(string \<times> pyval) list \<Rightarrow> to_json_stmt \<Rightarrow> (string \<times> pyval) list
     \<Rightarrow> error + (string \<times> pyval) list" where
  "exec_to_json env (Assign d k e) json =
     (case eval_to_json_expr env e of
        Inl err \<Rightarrow> Inl err
      | Inr v \<Rightarrow> Inr (AList.update k v json))"
| "exec_to_json env (IfNotNone v s) json =
     (case lookup_var env v of
        Inl err \<Rightarrow> Inl err
      | Inr x \<Rightarrow> (if x \<noteq> PNone then exec_to_json env s json else Inr json))"

fun exec_to_json_list ::
  "(string \<times> pyval) list \<Rightarrow> to_json_stmt list \<Rightarrow> (string \<times> pyval) list
     \<Rightarrow> error + (string \<times> pyval) list" where
  "exec_to_json_list env [] json = Inr json"
| "exec_to_json_list env (s # ss) json =
     (case exec_to_json env s json of
        Inl err \<Rightarrow> Inl err
      | Inr json' \<Rightarrow> exec_to_json_list env ss json')"

text \<open>\<open>x.to_json()\<close> on an instance of a generated class with the given fields.\<close>

definition run_to_json :: "generated_class \<Rightarrow> (string \<times> pyval) list \<Rightarrow> error + (string \<times> pyval) list" where
  "run_to_json g inst = exec_to_json_list inst (gc_to_json g) []"

text \<open>
  What the emitted \<open>from_json\<close> code calls but does not define: \<open>from_json\<close> of
  another generated class (by its Python name) and the constructors of Python's
  builtin types. Both are parameters of the run.
\<close>

record runtime =
  rt_from_json :: "string \<Rightarrow> pyval \<Rightarrow> error + pyval"
  rt_cons :: "string \<Rightarrow> pyval \<Rightarrow> error + pyval"

definition apply_cons :: "runtime \<Rightarrow> string option \<Rightarrow> pyval \<Rightarrow> error + pyval" where
  "apply_cons rt cons v = (case cons of None \<Rightarrow> Inr v | Some c \<Rightarrow> rt_cons rt c v)"

fun eval_from_json ::
  "runtime \<Rightarrow> from_json_expr \<Rightarrow> (string \<times> pyval) list \<Rightarrow> error + pyval" where
  "eval_from_json rt (ListRefFromJson r d k) json =
     (case map_of json k of
        None \<Rightarrow> Inl (KeyError k)
      | Some x \<Rightarrow>
          (case py_iter x of
             Inl e \<Rightarrow> Inl e
           | Inr xs \<Rightarrow> (case traverse (rt_from_json rt r) xs of
                          Inl e \<Rightarrow> Inl e | Inr ys \<Rightarrow> Inr (PList ys))))"
| "eval_from_json rt (ListCons c d k) json =
     (case map_of json k of
        None \<Rightarrow> Inl (KeyError k)
      | Some x \<Rightarrow>
          (case py_iter x of
             Inl e \<Rightarrow> Inl e
           | Inr xs \<Rightarrow> (case traverse (apply_cons rt c) xs of
                          Inl e \<Rightarrow> Inl e | Inr ys \<Rightarrow> Inr (PList ys))))"
| "eval_from_json rt (RefFromJson r d k) json =
     (case map_of json k of
        None \<Rightarrow> Inl (KeyError k)
      | Some x \<Rightarrow> rt_from_json rt r x)"
| "eval_from_json rt (Cons c d k) json =
     (case map_of json k of
        None \<Rightarrow> Inl (KeyError k)
      | Some x \<Rightarrow> apply_cons rt c x)"
| "eval_from_json rt (IfPresent d k e) json =
     (case map_of json k of
        None \<Rightarrow> Inr PNone
      | Some x \<Rightarrow> (if x \<noteq> PNone then eval_from_json rt e json else Inr PNone))"

text \<open>
  \<open>cls.from_json(json)\<close> of a generated class: the keyword arguments are
  evaluated in order and become the fields of the new instance.
\<close>

definition run_from_json ::
  "runtime \<Rightarrow> generated_class \<Rightarrow> (string \<times> pyval) list \<Rightarrow> error + (string \<times> pyval) list" where
  "run_from_json rt g json =
     traverse (\<lambda>kw. case eval_from_json rt (snd kw) json of
                      Inl e \<Rightarrow> Inl e
                    | Inr v \<Rightarrow> Inr (fst kw, v)) (gc_from_json g)"








text \<open>
  The wire encoding of an argument, in the words of the spec: an instance of a
  generated class is encoded by its \<open>to_wire\<close>, a list element by element, and a
  JSON value is itself. An argument fits its parameter when it is \<open>None\<close> only
  for an optional parameter and otherwise has the declared shape.
\<close>

fun to_wire :: "pyval \<Rightarrow> pyval" where
  "to_wire (PObj j) = j"
| "to_wire (PList xs) = PList (map to_wire xs)"
| "to_wire v = v"







text \<open>What the claims about the patches say of a type and of a command.\<close>

definition expires_optional :: "CdpType \<Rightarrow> bool" where
  "expires_optional t = (case expires_property t of None \<Rightarrow> True | Some p \<Rightarrow> prop_optional p)"

definition second_is_backend :: "CdpCommand \<Rightarrow> bool" where
  "second_is_backend c =
     (2 \<le> length (cmd_parameters c) \<and> prop_ref (cmd_parameters c ! 1) = Some ''BackendNodeId'')"

subsection \<open>Example schema documents and schema objects\<close>







definition mk_property :: "string \<Rightarrow> string option \<Rightarrow> string option \<Rightarrow> bool \<Rightarrow> string \<Rightarrow> CdpProperty" where
  "mk_property name ty ref opt domain =
     \<lparr> prop_name = name, prop_description = None, prop_type = ty, prop_ref = ref,
       prop_enum = [], prop_items = None, prop_optional = opt, prop_experimental = False,
       prop_deprecated = False, prop_domain = domain \<rparr>"

definition mk_domain ::
  "string \<Rightarrow> CdpType list \<Rightarrow> CdpCommand list \<Rightarrow> CdpEvent list \<Rightarrow> CdpDomain" where
  "mk_domain name types commands events =
     \<lparr> domain_name = name, domain_description = None, domain_experimental = False,
       domain_dependencies = [], domain_types = types, domain_commands = commands,
       domain_events = events \<rparr>"

definition resolveNode_command :: CdpCommand where
  "resolveNode_command =
     \<lparr> cmd_name = ''resolveNode'', cmd_description = None, cmd_experimental = False,
       cmd_deprecated = False,
       cmd_parameters =
         [mk_property ''nodeId'' None (Some ''NodeId'') True ''DOM'',
          mk_property ''backendNodeId'' None (Some ''DOM.BackendNodeId'') True ''DOM'',
          mk_property ''objectGroup'' (Some ''string'') None True ''DOM''],
       cmd_returns = [mk_property ''object'' None (Some ''Runtime.RemoteObject'') False ''DOM''],
       cmd_domain = ''DOM'' \<rparr>"

definition cookie_type :: CdpType where
  "cookie_type =
     \<lparr> type_id = ''Cookie'', type_description = None, type_type = ''object'',
       type_items = None, type_enum = [],
       type_properties =
         [mk_property ''name'' (Some ''string'') None False ''Network'',
          mk_property ''value'' (Some ''string'') None False ''Network'',
          mk_property ''expires'' (Some ''number'') None False ''Network''] \<rparr>"

definition screencast_event :: CdpEvent where
  "screencast_event =
     \<lparr> event_name = ''screencastVisibilityChanged'',
       event_description = Some (''Fired when the page was shown or hidden '' @ [CHR 0x60] @ ''.''),
       event_deprecated = False, event_experimental = True,
       event_parameters = [mk_property ''visible'' (Some ''boolean'') None False ''Page''],
       event_domain = ''Page'' \<rparr>"

definition example_domains :: "CdpDomain list" where
  "example_domains =
     [mk_domain ''DOM'' [] [resolveNode_command] [],
      mk_domain ''Network'' [cookie_type] [] [],
      mk_domain ''Page'' [] [] [screencast_event]]"

subsection \<open>What a caller observes of a command\<close>

text \<open>
  The argument bound to a parameter, the parameters object the spec describes
  (the wire encodings of the arguments that are not \<open>None\<close>, under the original
  CDP names, in schema order) and the request object built around it.
\<close>

definition argument :: "(string \<times> pyval) list \<Rightarrow> CdpProperty \<Rightarrow> pyval" where
  "argument locals p = (case map_of locals (py_name p) of None \<Rightarrow> PNone | Some v \<Rightarrow> v)"

definition wire_params :: "(string \<times> pyval) list \<Rightarrow> CdpProperty list \<Rightarrow> (string \<times> pyval) list" where
  "wire_params locals ps =
     map (\<lambda>p. (prop_name p, to_wire (argument locals p)))
       (filter (\<lambda>p. argument locals p \<noteq> PNone) ps)"


text \<open>
  A runtime for the examples: \<open>from_json\<close> of a referenced class wraps the value
  in an instance that encodes back to it, and a builtin constructor returns its
  argument, as it does on a value of its own type.
\<close>

definition example_runtime :: runtime where
  "example_runtime = \<lparr> rt_from_json = (\<lambda>r v. Inr (PObj v)), rt_cons = (\<lambda>c v. Inr v) \<rparr>"


definition cookie_patched :: CdpType where
  "cookie_patched = cookie_type\<lparr>type_properties := patch_expires (type_properties cookie_type)\<rparr>"

definition expires_patched :: CdpProperty where
  "expires_patched = mk_property ''expires'' (Some ''number'') None True ''Network''"

section \<open>The tab: selector and text queries (zendriver/core/tab.py)\<close>

subsection \<open>Helpers that are not among the sources\<close>

text \<open>
  Modelled from the spec: \<open>util.filter_recurse\<close> and \<open>util.filter_recurse_all\<close>
  (zendriver/core/util.py) are not among the sources. The spec has them locate
  nodes in an already fetched subtree by a depth-first traversal: the first
  descendant, or all descendants, for which the predicate holds, in document
  order.
\<close>

fun descendants :: "Node \<Rightarrow> Node list" where
  "descendants (Node nid pid bid ty nm v cnt chs attrs cd srs) =
     concat (map (\<lambda>c. c # descendants c) chs)"

definition filter_recurse :: "Node \<Rightarrow> (Node \<Rightarrow> bool) \<Rightarrow> Node option" where
  "filter_recurse doc predicate = find predicate (descendants doc)"

definition filter_recurse_all :: "Node \<Rightarrow> (Node \<Rightarrow> bool) \<Rightarrow> Node list" where
  "filter_recurse_all doc predicate = filter predicate (descendants doc)"

text \<open>
  Modelled from the spec: \<open>Connection.send\<close> (zendriver/core/connection.py) is not
  among the sources. The spec has it write the request, wait for the frame with
  the same id and complete with the decoded result, or with a protocol error when
  the frame carries \<open>error\<close>. The browser is a script of responses, consumed one
  per request; the requests sent are logged. An exhausted script is a closed
  socket.
\<close>

datatype request =
    GetDocument
  | QuerySelectorAll int string
  | QuerySelector int string
  | PerformSearch string
  | GetSearchResults string int int
  | DiscardSearchResults string
  | ResolveNodeBackend "int option"
  | ResolveNodeId int
  | DomDisable

datatype response =
    RDocument Node
  | RNodeIds "int list"
  | RNodeId int
  | RSearch string int
  | RRemoteObject pyval
  | RNothing
  | RError "string option"

record world =
  w_responses :: "response list"
  w_sent :: "request list"

definition send :: "request \<Rightarrow> world \<Rightarrow> (error + response) \<times> world" where
  "send req w =
     (case w_responses w of
        [] \<Rightarrow> (Inl ConnectionClosed, w\<lparr>w_sent := w_sent w @ [req]\<rparr>)
      | r # rs \<Rightarrow>
          ((case r of RError message \<Rightarrow> Inl (ProtocolException message) | _ \<Rightarrow> Inr r),
           w\<lparr>w_responses := rs, w_sent := w_sent w @ [req]\<rparr>))"

text \<open>
  Decoding a result against the command's return schema; a result of another
  shape makes the generated decoder raise.
\<close>

fun expect_document :: "response \<Rightarrow> error + Node" where
  "expect_document (RDocument doc) = Inr doc"
| "expect_document r = Inl (KeyError ''root'')"

fun expect_node_ids :: "response \<Rightarrow> error + int list" where
  "expect_node_ids (RNodeIds ids) = Inr ids"
| "expect_node_ids r = Inl (KeyError ''nodeIds'')"


fun expect_search :: "response \<Rightarrow> error + (string \<times> int)" where
  "expect_search (RSearch sid n) = Inr (sid, n)"
| "expect_search r = Inl (KeyError ''searchId'')"

fun expect_remote_object :: "response \<Rightarrow> error + pyval" where
  "expect_remote_object (RRemoteObject obj) = Inr obj"
| "expect_remote_object r = Inl (KeyError ''object'')"

subsection \<open>Strings\<close>

text \<open>\<open>str.strip()\<close>, \<open>str.lower()\<close> and \<open>a in b\<close> on ASCII strings.\<close>

definition is_space :: "char \<Rightarrow> bool" where
  "is_space c = (c \<in> set [CHR '' '', CHR 0x09, CHR 0x0A, CHR 0x0B, CHR 0x0C, CHR 0x0D,
                           CHR 0x1C, CHR 0x1D, CHR 0x1E, CHR 0x1F])"

definition strip :: "string \<Rightarrow> string" where
  "strip s = rev (dropWhile is_space (rev (dropWhile is_space s)))"

definition lower :: "string \<Rightarrow> string" where
  "lower s = map to_lower s"

fun starts_with :: "string \<Rightarrow> string \<Rightarrow> bool" where
  "starts_with s [] = True"
| "starts_with [] (p # ps) = False"
| "starts_with (c # cs) (p # ps) = (c = p \<and> starts_with cs ps)"

fun contains :: "string \<Rightarrow> string \<Rightarrow> bool" where
  "contains [] sub = (sub = [])"
| "contains (c # cs) sub = (starts_with (c # cs) sub \<or> contains cs sub)"

subsection \<open>Element operations the queries use (zendriver/core/element.py)\<close>

text \<open>
  \<open>Element.parent\<close>: raises without a tree, is \<open>None\<close> when no node of the tree has
  the parent id.
\<close>

definition parent :: "Element \<Rightarrow> error + Element option" where
  "parent e =
     (case elem_tree e of
        None \<Rightarrow> Inl RuntimeError
      | Some tree \<Rightarrow>
          (case filter_recurse tree (\<lambda>n. Some (node_id n) = parent_id (elem_node e)) of
             None \<Rightarrow> Inr None
           | Some parent_node \<Rightarrow>
               (case create (Some parent_node) (elem_tab e) (Some tree) of
                  Inl err \<Rightarrow> Inl err
                | Inr parent_element \<Rightarrow> Inr (Some parent_element))))"

text \<open>\<open>Element.text_all\<close>.\<close>

definition text_all :: "Element \<Rightarrow> string" where
  "text_all e =
     join '' '' (map node_value (filter_recurse_all (elem_node e) (\<lambda>n. node_type n = 3)))"

text \<open>
  \<open>Element.update()\<close>, called without a node: the handle is mutated in place, so
  the handle is returned also when a request raises in the middle.
\<close>

definition update :: "Element \<Rightarrow> world \<Rightarrow> (error + unit) \<times> Element \<times> world" where
  "update e w =
     (case send GetDocument w of
        (Inl err, w1) \<Rightarrow> (Inl err, e, w1)
      | (Inr r, w1) \<Rightarrow>
          (case expect_document r of
             Inl err \<Rightarrow> (Inl err, e, w1)
           | Inr doc \<Rightarrow>
               (let e1 = (case filter_recurse doc
                                 (\<lambda>n. backend_node_id n = backend_node_id (elem_node e)) of
                            Some updated_node \<Rightarrow> e\<lparr>elem_node := updated_node\<rparr>
                          | None \<Rightarrow> e);
                    e2 = e1\<lparr>elem_tree := Some doc\<rparr>
                in case send (ResolveNodeBackend (backend_node_id (elem_node e2))) w1 of
                     (Inl err, w2) \<Rightarrow> (Inl err, e2, w2)
                   | (Inr r2, w2) \<Rightarrow>
                       (case expect_remote_object r2 of
                          Inl err \<Rightarrow> (Inl err, e2, w2)
                        | Inr obj \<Rightarrow>
                            (Inr (),
                             e2\<lparr>elem_remote_object := Some obj,
                                elem_attrs := make_attrs (elem_node e2) []\<rparr>,
                             w2)))))"

subsection \<open>Selector queries\<close>

text \<open>
  The optional root \<open>_node\<close> of a selector query is a \<open>cdp.dom.Node\<close> or an element
  handle. The queries set and delete the attribute \<open>__last\<close> on it: a node is
  paired with that flag, a handle has it as \<open>elem_last\<close>. An element used as a
  document is seen through its node.
\<close>

datatype root = RootNode Node bool | RootElement Element

fun root_node :: "root \<Rightarrow> Node" where
  "root_node (RootNode n l) = n"
| "root_node (RootElement e) = elem_node e"

fun root_last :: "root \<Rightarrow> bool" where
  "root_last (RootNode n l) = l"
| "root_last (RootElement e) = elem_last e"

fun set_root_last :: "bool \<Rightarrow> root \<Rightarrow> root" where
  "set_root_last b (RootNode n l) = RootNode n b"
| "set_root_last b (RootElement e) = RootElement (e\<lparr>elem_last := b\<rparr>)"

text \<open>\<open>if isinstance(_node, Element): await _node.update()\<close>.\<close>

fun update_root :: "root \<Rightarrow> world \<Rightarrow> (error + unit) \<times> root \<times> world" where
  "update_root (RootNode n l) w = (Inr (), RootNode n l, w)"
| "update_root (RootElement e) w =
     (case update e w of (r, e', w') \<Rightarrow> (r, RootElement e', w'))"

text \<open>
  The document a rooted query runs in: the root itself, or the content document
  of an \<open>IFRAME\<close> root (\<open>None\<close> when the frame has none).
\<close>

definition root_doc :: "root \<Rightarrow> Node option" where
  "root_doc r =
     (if node_name (root_node r) = ''IFRAME'' then content_document (root_node r)
      else Some (root_node r))"

definition could_not_find_node :: "string option \<Rightarrow> bool" where
  "could_not_find_node message =
     (case message of
        None \<Rightarrow> False
      | Some m \<Rightarrow> contains (lower m) ''could not find node'')"

text \<open>\<open>Tab.disable_dom_agent\<close>: a protocol error of \<open>DOM.disable\<close> is ignored.\<close>

definition disable_dom_agent :: "world \<Rightarrow> (error + unit) \<times> world" where
  "disable_dom_agent w =
     (case send DomDisable w of
        (Inl (ProtocolException m), w') \<Rightarrow> (Inr (), w')
      | (Inl err, w') \<Rightarrow> (Inl err, w')
      | (Inr r, w') \<Rightarrow> (Inr (), w'))"

text \<open>The loop over the returned node ids: nodes not found in the document are skipped.\<close>

fun elements_of :: "nat \<Rightarrow> Node \<Rightarrow> int list \<Rightarrow> error + Element list" where
  "elements_of tab doc [] = Inr []"
| "elements_of tab doc (nid # nids) =
     (case filter_recurse doc (\<lambda>n. node_id n = nid) of
        None \<Rightarrow> elements_of tab doc nids
      | Some node \<Rightarrow>
          (case create (Some node) tab (Some doc) of
             Inl err \<Rightarrow> Inl err
           | Inr elem \<Rightarrow>
               (case elements_of tab doc nids of
                  Inl err \<Rightarrow> Inl err
                | Inr items \<Rightarrow> Inr (elem # items))))"

text \<open>
  \<open>Tab.query_selector_all(selector, _node)\<close> on the tab \<open>tab\<close>. The result is the
  returned list or the exception, the root as the call leaves it, and the world.
  The function calls itself once, after it has set \<open>__last\<close> on the root.
\<close>

function query_selector_all ::
  "nat \<Rightarrow> string \<Rightarrow> root option \<Rightarrow> world \<Rightarrow> (error + Element list) \<times> root option \<times> world" where
  "query_selector_all tab selector None w =
     (case send GetDocument w of
        (Inl err, w1) \<Rightarrow> (Inl err, None, w1)
      | (Inr r, w1) \<Rightarrow>
          (case expect_document r of
             Inl err \<Rightarrow> (Inl err, None, w1)
           | Inr doc \<Rightarrow>
               (case send (QuerySelectorAll (node_id doc) selector) w1 of
                  (Inl (ProtocolException m), w2) \<Rightarrow>
                    (case disable_dom_agent w2 of
                       (Inl err, w3) \<Rightarrow> (Inl err, None, w3)
                     | (Inr u, w3) \<Rightarrow> (Inl (ProtocolException m), None, w3))
                | (Inl err, w2) \<Rightarrow> (Inl err, None, w2)
                | (Inr r2, w2) \<Rightarrow>
                    (case expect_node_ids r2 of
                       Inl err \<Rightarrow> (Inl err, None, w2)
                     | Inr node_ids \<Rightarrow> (elements_of tab doc node_ids, None, w2)))))"
| "query_selector_all tab selector (Some root) w =
     (case root_doc root of
        None \<Rightarrow> (Inl AttributeError, Some root, w)
      | Some doc \<Rightarrow>
          (case send (QuerySelectorAll (node_id doc) selector) w of
             (Inl (ProtocolException m), w1) \<Rightarrow>
               (if could_not_find_node m
                then (if root_last root
                      then (Inr [], Some (set_root_last False root), w1)
                      else (case update_root root w1 of
                              (Inl err, root', w2) \<Rightarrow> (Inl err, Some root', w2)
                            | (Inr u, root', w2) \<Rightarrow>
                                query_selector_all tab selector
                                  (Some (set_root_last True root')) w2))
                else (Inr [], Some root, w1))
           | (Inl err, w1) \<Rightarrow> (Inl err, Some root, w1)
           | (Inr r, w1) \<Rightarrow>
               (case expect_node_ids r of
                  Inl err \<Rightarrow> (Inl err, Some root, w1)
                | Inr node_ids \<Rightarrow> (elements_of tab doc node_ids, Some root, w1))))"
  by pat_completeness auto
termination
proof (relation "measure (\<lambda>(tab, selector, r, w).
        (case r of None \<Rightarrow> 0 | Some root \<Rightarrow> (if root_last root then 0 else 1)))")
  show "wf (measure (\<lambda>(tab, selector, r, w).
        (case r of None \<Rightarrow> (0::nat) | Some root \<Rightarrow> (if root_last root then 0 else 1))))"
    by simp
next
  fix tab :: nat and selector :: string and root w x2 x y x1 x11 xa ya xb yb
  assume "\<not> root_last root"
  moreover have "root_last (set_root_last True xb)"
    by (cases xb) simp_all
  ultimately show "((tab, selector, Some (set_root_last True xb), yb), tab, selector, Some root, w)
        \<in> measure (\<lambda>(tab, selector, r, w).
        (case r of None \<Rightarrow> 0 | Some root \<Rightarrow> (if root_last root then 0 else 1)))"
    by simp
qed




subsection \<open>Text search\<close>

text \<open>
  The loop of \<open>Tab.find_elements_by_text\<close> over the node ids of the search
  results. A node that is not in the fetched document is asked from the browser
  by \<open>DOM.resolveNode\<close>; the answer is a remote object and not a node, so building
  the element from it raises and the result is skipped, as a protocol error
  skips it. A text node (node type 3) is replaced by its parent: when the parent
  is not found the element is updated first, and when it is still not found the
  text node itself is kept.
\<close>

fun text_results ::
  "nat \<Rightarrow> Node \<Rightarrow> int list \<Rightarrow> world \<Rightarrow> (error + Element list) \<times> world" where
  "text_results tab doc [] w = (Inr [], w)"
| "text_results tab doc (nid # nids) w =
     (case filter_recurse doc (\<lambda>n. node_id n = nid) of
        None \<Rightarrow>
          (case send (ResolveNodeId nid) w of
             (Inl (ProtocolException m), w1) \<Rightarrow> text_results tab doc nids w1
           | (Inl err, w1) \<Rightarrow> (Inl err, w1)
           | (Inr r, w1) \<Rightarrow> text_results tab doc nids w1)
      | Some node \<Rightarrow>
          (case create (Some node) tab (Some doc) of
             Inl err \<Rightarrow> text_results tab doc nids w
           | Inr elem \<Rightarrow>
               (if node_type (elem_node elem) = 3
                then (case parent elem of
                        Inl err \<Rightarrow> (Inl err, w)
                      | Inr (Some p) \<Rightarrow>
                          (case text_results tab doc nids w of
                             (Inl err, w') \<Rightarrow> (Inl err, w')
                           | (Inr items, w') \<Rightarrow> (Inr (p # items), w'))
                      | Inr None \<Rightarrow>
                          (case update elem w of
                             (Inl err, elem', w1) \<Rightarrow> (Inl err, w1)
                           | (Inr u, elem', w1) \<Rightarrow>
                               (case parent elem' of
                                  Inl err \<Rightarrow> (Inl err, w1)
                                | Inr po \<Rightarrow>
                                    (case text_results tab doc nids w1 of
                                       (Inl err, w') \<Rightarrow> (Inl err, w')
                                     | (Inr items, w') \<Rightarrow>
                                         (Inr ((case po of Some p \<Rightarrow> p | None \<Rightarrow> elem')
                                               # items), w')))))
                else (case text_results tab doc nids w of
                        (Inl err, w') \<Rightarrow> (Inl err, w')
                      | (Inr items, w') \<Rightarrow> (Inr (elem # items), w')))))"

text \<open>
  The local search through the frames of the fetched document: for every
  \<open>IFRAME\<close> node with a content document, the text nodes of the frame whose
  value contains the text, compared in lower case, give their parents, looked up
  in the frame's tree; a text node whose parent is not found gives nothing.
\<close>

definition frame_text_parents :: "nat \<Rightarrow> string \<Rightarrow> Node \<Rightarrow> error + Element list" where
  "frame_text_parents tab text iframe =
     (case content_document iframe of
        None \<Rightarrow> Inr []
      | Some frame \<Rightarrow>
          (case traverse
                  (\<lambda>text_node.
                     case create (Some text_node) tab (Some frame) of
                       Inl err \<Rightarrow> Inl err
                     | Inr e \<Rightarrow> parent e)
                  (filter_recurse_all frame
                     (\<lambda>node. node_type node = 3 \<and> contains (lower (node_value node)) (lower text))) of
             Inl err \<Rightarrow> Inl err
           | Inr parents \<Rightarrow> Inr (concat (map (\<lambda>po. case po of None \<Rightarrow> [] | Some p \<Rightarrow> [p]) parents))))"

definition iframe_results :: "nat \<Rightarrow> string \<Rightarrow> Node \<Rightarrow> error + Element list" where
  "iframe_results tab text doc =
     (case traverse (frame_text_parents tab text)
             (filter_recurse_all doc (\<lambda>node. node_name node = ''IFRAME'')) of
        Inl err \<Rightarrow> Inl err
      | Inr found \<Rightarrow> Inr (concat found))"

text \<open>\<open>Tab.find_elements_by_text(text)\<close>; the parameter \<open>tag_hint\<close> is not read by the method.\<close>

definition find_elements_by_text ::
  "nat \<Rightarrow> string \<Rightarrow> world \<Rightarrow> (error + Element list) \<times> world" where
  "find_elements_by_text tab text0 w =
     (let text = strip text0 in
      case send GetDocument w of
        (Inl err, w1) \<Rightarrow> (Inl err, w1)
      | (Inr r1, w1) \<Rightarrow>
      (case expect_document r1 of
        Inl err \<Rightarrow> (Inl err, w1)
      | Inr doc \<Rightarrow>
      (case send (PerformSearch text) w1 of
        (Inl err, w2) \<Rightarrow> (Inl err, w2)
      | (Inr r2, w2) \<Rightarrow>
      (case expect_search r2 of
        Inl err \<Rightarrow> (Inl err, w2)
      | Inr (search_id, nresult) \<Rightarrow>
      (case (if nresult \<noteq> 0
             then (case send (GetSearchResults search_id 0 nresult) w2 of
                     (Inl err, w3) \<Rightarrow> (Inl err, w3)
                   | (Inr r3, w3) \<Rightarrow> (expect_node_ids r3, w3))
             else (Inr [], w2)) of
        (Inl err, w3) \<Rightarrow> (Inl err, w3)
      | (Inr node_ids, w3) \<Rightarrow>
      (case send (DiscardSearchResults search_id) w3 of
        (Inl err, w4) \<Rightarrow> (Inl err, w4)
      | (Inr r4, w4) \<Rightarrow>
      (case text_results tab doc node_ids w4 of
        (Inl err, w5) \<Rightarrow> (Inl err, w5)
      | (Inr items, w5) \<Rightarrow>
      (case iframe_results tab text doc of
        Inl err \<Rightarrow> (Inl err, w5)
      | Inr frame_items \<Rightarrow>
      (case disable_dom_agent w5 of
        (Inl err, w6) \<Rightarrow> (Inl err, w6)
      | (Inr u, w6) \<Rightarrow> (Inr (items @ frame_items), w6))))))))))"

text \<open>
  Python's \<open>min(items, key=f)\<close> on a non-empty list: the first element whose key
  is the least.
\<close>

fun min_by :: "('a \<Rightarrow> int) \<Rightarrow> 'a \<Rightarrow> 'a list \<Rightarrow> 'a" where
  "min_by f best [] = best"
| "min_by f best (x # xs) = (if f x < f best then min_by f x xs else min_by f best xs)"

definition length_distance :: "string \<Rightarrow> Element \<Rightarrow> int" where
  "length_distance text el = \<bar>int (length text) - int (length (text_all el))\<bar>"

text \<open>
  \<open>Tab.find_element_by_text(text, best_match, return_enclosing_element)\<close>. An element
  handle is always truthy, so \<open>closest_by_length or items[0]\<close> is the closest one and
  the loop of the other branch returns the first item. The third parameter is
  not read by the method.
\<close>

definition find_element_by_text ::
  "nat \<Rightarrow> string \<Rightarrow> bool \<Rightarrow> bool \<Rightarrow> world \<Rightarrow> (error + Element option) \<times> world" where
  "find_element_by_text tab text best_match return_enclosing_element w =
     (case find_elements_by_text tab text w of
        (Inl err, w') \<Rightarrow> (Inl err, w')
      | (Inr items, w') \<Rightarrow>
          (case items of
             [] \<Rightarrow> (Inr None, w')
           | first # others \<Rightarrow>
               (if best_match
                then (Inr (Some (min_by (length_distance text) first others)), w')
                else (Inr (Some first), w'))))"

subsection \<open>Example documents and browsers\<close>

definition text_node :: "int \<Rightarrow> int \<Rightarrow> string \<Rightarrow> Node" where
  "text_node nid pid v = Node nid (Some pid) (Some (nid + 100)) 3 ''#text'' v None [] None None []"

definition element_node :: "int \<Rightarrow> int option \<Rightarrow> string \<Rightarrow> Node list \<Rightarrow> Node" where
  "element_node nid pid nm chs =
     Node nid pid (Some (nid + 100)) 1 nm [] (Some (int (length chs))) chs (Some []) None []"

text \<open>
  A document: \<open>html\<close> (2) with a paragraph (3) holding the text "ab" (4) and a
  division (5) holding the text "ab cd!" (6).
\<close>

definition example_document :: Node where
  "example_document =
     Node 1 None (Some 101) 9 ''#document'' [] (Some 1)
       [element_node 2 (Some 1) ''HTML''
          [element_node 3 (Some 2) ''P'' [text_node 4 3 ''ab''],
           element_node 5 (Some 2) ''DIV'' [text_node 6 5 ''ab cd!'']]]
       None None []"

definition browser :: "response list \<Rightarrow> world" where
  "browser responses = \<lparr> w_responses = responses, w_sent = [] \<rparr>"

text \<open>A handle on the division of the document, in tab 1.\<close>

definition division_handle :: Element where
  "division_handle =
     projr (create (Some (element_node 5 (Some 2) ''DIV'' [text_node 6 5 ''ab cd!'']))
              1 (Some example_document))"

text \<open>A handle on the paragraph of the document, in tab 1.\<close>

definition paragraph_handle :: Element where
  "paragraph_handle =
     projr (create (Some (element_node 3 (Some 2) ''P'' [text_node 4 3 ''ab'']))
              1 (Some example_document))"

text \<open>
  A browser that answers a text search with the given node ids, and a browser
  that answers a selector query with "could not find node", then serves the
  document and the remote object of a revalidation and answers the retried query
  with node 6.
\<close>

definition search_browser :: "int list \<Rightarrow> world" where
  "search_browser node_ids =
     browser [RDocument example_document, RSearch ''s'' (int (length node_ids)),
              RNodeIds node_ids, RNothing, RNothing]"

definition stale_browser :: "response \<Rightarrow> world" where
  "stale_browser answer =
     browser [RError (Some ''Could not find node with given id''), RDocument example_document,
              RRemoteObject (PStr ''obj''), answer]"

text \<open>The division handle after one revalidation, with the given \<open>__last\<close>.\<close>

definition revalidated_handle :: "bool \<Rightarrow> Element" where
  "revalidated_handle l =
     division_handle\<lparr>elem_remote_object := Some (PStr ''obj''), elem_last := l\<rparr>"


text \<open>
  The handle as \<open>Element.update()\<close> leaves it when the browser serves the
  document \<open>doc\<close> and the remote object \<open>obj\<close>.
\<close>

definition revalidated :: "Element \<Rightarrow> Node \<Rightarrow> pyval \<Rightarrow> Element" where
  "revalidated e doc obj =
     (let e1 = (case filter_recurse doc (\<lambda>n. backend_node_id n = backend_node_id (elem_node e)) of
                  Some updated_node \<Rightarrow> e\<lparr>elem_node := updated_node\<rparr>
                | None \<Rightarrow> e)
      in e1\<lparr>elem_tree := Some doc, elem_remote_object := Some obj,
             elem_attrs := make_attrs (elem_node e1) []\<rparr>)"

text \<open>A document whose only node below the root is a text node.\<close>

definition orphan_document :: Node where
  "orphan_document =
     Node 1 None (Some 101) 9 ''#document'' [] (Some 1) [text_node 7 1 ''x''] None None []"

section \<open>Properties of the element handle\<close>

text \<open>
  C6 (as amended). Two element handles compare equal iff both backend node ids
  are truthy (present and not zero) and equal. The session (tab) of the handles is
  not compared, and an object that is not an element handle is never equal.
\<close>

theorem Element_eq_iff:
  "Element_eq a (Inl b) =
     (truthy_id (backend_node_id_of a) \<and> truthy_id (backend_node_id_of b)
      \<and> backend_node_id_of a = backend_node_id_of b)"
  by (auto simp: Element_eq_def)

text \<open>
  C6, counterexample. Two handles created from the same node (backend node id 7)
  in two different sessions compare equal, although the claim says that handles
  attached to different sessions are not equal.
\<close>

theorem Element_eq_ignores_session:
  "elem_tab (projr (create (Some (Node 3 None (Some 7) 1 ''DIV'' [] None [] None None [])) 1 None))
     \<noteq> elem_tab (projr (create (Some (Node 3 None (Some 7) 1 ''DIV'' [] None [] None None [])) 2 None))
   \<and> Element_eq
         (projr (create (Some (Node 3 None (Some 7) 1 ''DIV'' [] None [] None None [])) 1 None))
         (Inl (projr (create (Some (Node 3 None (Some 7) 1 ''DIV'' [] None [] None None [])) 2 None)))"
  by (simp add: create_def Element_eq_def backend_node_id_of_def make_attrs_def)




section \<open>Properties of the generator: names, version gate, patches\<close>



















lemma patch_expires_idem: "patch_expires (patch_expires ps) = patch_expires ps"
  by (induction ps) auto

lemma patch_cookie_idem: "patch_cookie (patch_cookie ts) = patch_cookie ts"
  by (induction ts) (auto simp: patch_expires_idem)

lemma strip_backticks_idem: "strip_backticks (Some (strip_backticks d)) = strip_backticks d"
  by (simp add: strip_backticks_def)

lemma patch_screencast_idem: "patch_screencast (patch_screencast es) = patch_screencast es"
  by (induction es) (auto simp: strip_backticks_idem)

lemma patch_resolveNode_idem:
  "patch_resolveNode cs = Inr cs' \<Longrightarrow> patch_resolveNode cs' = Inr cs'"
proof (induction cs arbitrary: cs')
  case Nil
  then show ?case by simp
next
  case (Cons c cs)
  show ?case
  proof (cases "cmd_name c = ''resolveNode''")
    case True
    with Cons.prems show ?thesis
      by (auto split: if_splits)
  next
    case False
    with Cons.prems obtain cs2 where r: "patch_resolveNode cs = Inr cs2" and e: "cs' = c # cs2"
      by (auto split: sum.splits)
    from Cons.IH [OF r] False e show ?thesis by simp
  qed
qed

lemma fix_protocol_spec_idem:
  "fix_protocol_spec ds = Inr ds' \<Longrightarrow> fix_protocol_spec ds' = Inr ds'"
proof (induction ds arbitrary: ds')
  case Nil
  then show ?case by simp
next
  case (Cons d ds)
  from Cons.prems obtain ds2 where r: "fix_protocol_spec ds = Inr ds2"
    by (auto split: if_splits sum.splits)
  note ih = Cons.IH [OF r]
  from Cons.prems r ih show ?case
    by (auto split: if_splits sum.splits
             simp: patch_cookie_idem patch_screencast_idem dest: patch_resolveNode_idem)
qed

lemma blank_patch_expires:
  "map (\<lambda>p. p\<lparr>prop_optional := False\<rparr>) (patch_expires ps) = map (\<lambda>p. p\<lparr>prop_optional := False\<rparr>) ps"
  by (induction ps) auto

lemma cookie_filter_patch:
  "map properties_but_optional (filter (\<lambda>t. type_id t = ''Cookie'') (patch_cookie ts))
   = map properties_but_optional (filter (\<lambda>t. type_id t = ''Cookie'') ts)"
  by (induction ts) (auto simp: properties_but_optional_def blank_patch_expires)

lemma fix_cookie_types:
  "fix_protocol_spec ds = Inr ds' \<Longrightarrow>
   map properties_but_optional (cookie_types ds') = map properties_but_optional (cookie_types ds)"
proof (induction ds arbitrary: ds')
  case Nil
  then show ?case by simp
next
  case (Cons d ds)
  from Cons.prems obtain ds2 where r: "fix_protocol_spec ds = Inr ds2"
    by (auto split: if_splits sum.splits)
  from Cons.IH [OF r] have ih:
    "map properties_but_optional (cookie_types ds2) = map properties_but_optional (cookie_types ds)" .
  from Cons.prems r ih show ?case
    by (auto split: if_splits sum.splits simp: cookie_types_def cookie_filter_patch)
qed

lemma find_patch_expires:
  "find (\<lambda>p. prop_name p = ''expires'') (patch_expires ps)
   = map_option (\<lambda>p. p\<lparr>prop_optional := True\<rparr>) (find (\<lambda>p. prop_name p = ''expires'') ps)"
  by (induction ps) auto

lemma cookie_patched:
  "list_all expires_optional (filter (\<lambda>t. type_id t = ''Cookie'') (patch_cookie ts))"
  by (induction ts) (auto simp: expires_optional_def expires_property_def find_patch_expires split: option.splits)

lemma fix_cookie_optional:
  "fix_protocol_spec ds = Inr ds' \<Longrightarrow> list_all expires_optional (cookie_types ds')"
proof (induction ds arbitrary: ds')
  case Nil
  then show ?case by (simp add: cookie_types_def)
next
  case (Cons d ds)
  from Cons.prems obtain ds2 where r: "fix_protocol_spec ds = Inr ds2"
    by (auto split: if_splits sum.splits)
  from Cons.IH [OF r] have ih: "list_all expires_optional (cookie_types ds2)" .
  from Cons.prems r ih show ?case
    by (auto split: if_splits sum.splits simp: cookie_types_def cookie_patched)
qed

lemma find_patch_resolveNode:
  "patch_resolveNode cs = Inr cs' \<Longrightarrow>
   (case find (\<lambda>c. cmd_name c = ''resolveNode'') cs' of None \<Rightarrow> True | Some c \<Rightarrow> second_is_backend c)"
proof (induction cs arbitrary: cs')
  case Nil
  then show ?case by simp
next
  case (Cons c cs)
  show ?case
  proof (cases "cmd_name c = ''resolveNode''")
    case True
    with Cons.prems show ?thesis
      by (auto split: if_splits simp: second_is_backend_def)
  next
    case False
    with Cons.prems obtain cs2 where r: "patch_resolveNode cs = Inr cs2" and e: "cs' = c # cs2"
      by (auto split: sum.splits)
    from Cons.IH [OF r] False e show ?thesis by simp
  qed
qed

lemma fix_resolveNode:
  "fix_protocol_spec ds = Inr ds' \<Longrightarrow> list_all second_is_backend (resolveNode_commands ds')"
proof (induction ds arbitrary: ds')
  case Nil
  then show ?case by (simp add: resolveNode_commands_def)
next
  case (Cons d ds)
  from Cons.prems obtain ds2 where r: "fix_protocol_spec ds = Inr ds2"
    by (auto split: if_splits sum.splits)
  from Cons.IH [OF r] have ih: "list_all second_is_backend (resolveNode_commands ds2)" .
  from Cons.prems r ih show ?case
    by (auto split: if_splits sum.splits option.splits simp: resolveNode_commands_def
             dest: find_patch_resolveNode)
qed


text \<open>
  C7. When the patches apply to a domain list (no \<open>DOM.resolveNode\<close> with fewer
  than two parameters stops them), applying them again changes nothing. After
  one application, and so after two: every \<open>Cookie\<close> type of a \<open>Network\<close> domain
  has the property list it had, up to the \<open>optional\<close> flags, and its property
  \<open>expires\<close> is optional; the second parameter of \<open>resolveNode\<close> in every \<open>DOM\<close>
  domain refers to \<open>BackendNodeId\<close>.
\<close>

theorem fix_protocol_spec_idempotent:
  assumes "fix_protocol_spec ds = Inr ds'"
  shows "fix_protocol_spec ds' = Inr ds'
       \<and> map properties_but_optional (cookie_types ds')
           = map properties_but_optional (cookie_types ds)
       \<and> list_all expires_optional (cookie_types ds')
       \<and> list_all second_is_backend (resolveNode_commands ds')"
  using assms fix_protocol_spec_idem fix_cookie_types fix_cookie_optional fix_resolveNode
  by blast

text \<open>
  C7 on a domain list with \<open>DOM.resolveNode\<close> (its second parameter referring to
  \<open>DOM.BackendNodeId\<close>), \<open>Network.Cookie\<close> (with a required \<open>expires\<close>) and the
  \<open>Page\<close> event with the stray backtick.
\<close>

theorem fix_protocol_spec_idempotent_witness:
  "fix_protocol_spec (projr (fix_protocol_spec example_domains))
     = fix_protocol_spec example_domains
   \<and> \<not> isl (fix_protocol_spec example_domains)
   \<and> map (map prop_name \<circ> type_properties) (cookie_types (projr (fix_protocol_spec example_domains)))
       = [[''name'', ''value'', ''expires'']]
   \<and> map (map prop_optional \<circ> type_properties) (cookie_types (projr (fix_protocol_spec example_domains)))
       = [[False, False, True]]
   \<and> map (map prop_ref \<circ> cmd_parameters) (resolveNode_commands (projr (fix_protocol_spec example_domains)))
       = [[Some ''NodeId'', Some ''BackendNodeId'', None]]"
proof -
  have e: "fix_protocol_spec example_domains
           = Inr [mk_domain ''DOM'' []
                    [resolveNode_command\<lparr>cmd_parameters :=
                       [mk_property ''nodeId'' None (Some ''NodeId'') True ''DOM'',
                        mk_property ''backendNodeId'' None (Some ''BackendNodeId'') True ''DOM'',
                        mk_property ''objectGroup'' (Some ''string'') None True ''DOM'']\<rparr>] [],
                  mk_domain ''Network''
                    [cookie_type\<lparr>type_properties :=
                       [mk_property ''name'' (Some ''string'') None False ''Network'',
                        mk_property ''value'' (Some ''string'') None False ''Network'',
                        mk_property ''expires'' (Some ''number'') None True ''Network'']\<rparr>] [] [],
                  mk_domain ''Page'' [] []
                    [screencast_event\<lparr>event_description :=
                       Some ''Fired when the page was shown or hidden .''\<rparr>]]"
    by (simp add: example_domains_def mk_domain_def resolveNode_command_def cookie_type_def
          screencast_event_def mk_property_def strip_backticks_def)
  have h: "fix_protocol_spec example_domains = Inr (projr (fix_protocol_spec example_domains))"
    by (simp add: e)
  from fix_protocol_spec_idempotent [OF h]
  have i: "fix_protocol_spec (projr (fix_protocol_spec example_domains))
           = Inr (projr (fix_protocol_spec example_domains))"
    by blast
  have c: "cookie_types (projr (fix_protocol_spec example_domains))
           = [cookie_type\<lparr>type_properties :=
                       [mk_property ''name'' (Some ''string'') None False ''Network'',
                        mk_property ''value'' (Some ''string'') None False ''Network'',
                        mk_property ''expires'' (Some ''number'') None True ''Network'']\<rparr>]"
    by (simp add: e cookie_types_def mk_domain_def cookie_type_def)
  have r: "resolveNode_commands (projr (fix_protocol_spec example_domains))
           = [resolveNode_command\<lparr>cmd_parameters :=
                       [mk_property ''nodeId'' None (Some ''NodeId'') True ''DOM'',
                        mk_property ''backendNodeId'' None (Some ''BackendNodeId'') True ''DOM'',
                        mk_property ''objectGroup'' (Some ''string'') None True ''DOM'']\<rparr>]"
    by (simp add: e resolveNode_commands_def mk_domain_def resolveNode_command_def)
  have n: "\<not> isl (fix_protocol_spec example_domains)"
    by (simp add: e)
  show ?thesis
    using h i n by (simp add: c r mk_property_def)
qed


section \<open>Properties of the generated code\<close>






lemma wire_params_keys: "fst ` set (wire_params locals ps) \<subseteq> prop_name ` set ps"
  by (auto simp: wire_params_def)










lemmas snake_defs = snake_case_def underscore_def is_builtin_def builtins_names_def is_upper_def
  is_lower_def is_digit_def to_lower_def ascii_upper_def ascii_lower_def ascii_digit_def Let_def

lemma snake_case_examples:
  "snake_case ''backendNodeId'' = ''backend_node_id''"
  "snake_case ''nodeId'' = ''node_id''"
  "snake_case ''objectGroup'' = ''object_group''"
  "snake_case ''object'' = ''object_''"
  "snake_case ''resolveNode'' = ''resolve_node''"
  "snake_case ''Runtime'' = ''runtime''"
  "snake_case ''DOM'' = ''dom''"
  "snake_case ''name'' = ''name''"
  "snake_case ''value'' = ''value''"
  "snake_case ''expires'' = ''expires''"
  by (simp_all add: snake_defs)







lemma exec_other_key:
  "exec_to_json env (generate_to_json q d u) json = Inr json' \<Longrightarrow> prop_name q \<noteq> k \<Longrightarrow>
   map_of json' k = map_of json k"
  by (auto simp: generate_to_json_def Let_def update_conv' split: sum.splits if_splits option.splits)

lemma exec_optional_none:
  "prop_optional p \<Longrightarrow> map_of inst (py_name p) = Some PNone \<Longrightarrow>
   exec_to_json inst (generate_to_json p d True) json = Inr json"
  by (simp add: generate_to_json_def Let_def)

lemma exec_list_absent:
  assumes "prop_optional p" and "map_of inst (py_name p) = Some PNone"
      and "\<forall>q \<in> set qs. prop_name q = prop_name p \<longrightarrow> q = p"
      and "exec_to_json_list inst (map (\<lambda>q. generate_to_json q d True) qs) json = Inr json'"
      and "map_of json (prop_name p) = None"
  shows "map_of json' (prop_name p) = None"
  using assms(3-5)
proof (induction qs arbitrary: json)
  case Nil
  then show ?case by simp
next
  case (Cons q qs)
  from Cons.prems(2) obtain j1 where s: "exec_to_json inst (generate_to_json q d True) json = Inr j1"
    and r: "exec_to_json_list inst (map (\<lambda>q. generate_to_json q d True) qs) j1 = Inr json'"
    by (auto split: sum.splits)
  have "map_of j1 (prop_name p) = None"
  proof (cases "prop_name q = prop_name p")
    case True
    with Cons.prems(1) have "q = p" by simp
    with s exec_optional_none [OF assms(1,2)] have "j1 = json" by simp
    with Cons.prems(3) show ?thesis by simp
  next
    case False
    from exec_other_key [OF s False] Cons.prems(3) show ?thesis by simp
  qed
  with Cons.IH [of j1] Cons.prems(1) r show ?case by simp
qed

text \<open>
  C4 (as amended). For an optional property of a generated class with distinct
  property names: when the field of an instance is \<open>None\<close>, the output of
  \<open>to_json\<close> has no entry under the property's name; and \<open>from_json\<close> decodes a
  dictionary in which the key is missing or present with the value null to the
  field value \<open>None\<close>: null is read as absent, not rejected.
\<close>

theorem optional_absent_or_null:
  assumes "prop_optional p"
  shows "(\<forall>t g inst json.
            p \<in> set (type_properties t) \<and> distinct (map prop_name (type_properties t))
            \<and> generate_class_code t = Inr g \<and> map_of inst (py_name p) = Some PNone
            \<and> run_to_json g inst = Inr json
            \<longrightarrow> map_of json (prop_name p) = None)
       \<and> (\<forall>rt e json.
            generate_from_json p ''json'' = Inr e
            \<and> (map_of json (prop_name p) = None \<or> map_of json (prop_name p) = Some PNone)
            \<longrightarrow> eval_from_json rt e json = Inr PNone)"
proof -
  have a: "map_of json (prop_name p) = None"
    if h: "p \<in> set (type_properties t) \<and> distinct (map prop_name (type_properties t))
            \<and> generate_class_code t = Inr g \<and> map_of inst (py_name p) = Some PNone
            \<and> run_to_json g inst = Inr json" for t g inst json
  proof -
    from h have tj: "gc_to_json g = map (\<lambda>q. generate_to_json q ''json'' True)
                       (sort_key prop_optional (type_properties t))"
      by (auto simp: generate_class_code_def Let_def split: sum.splits)
    from h have inj: "\<forall>q \<in> set (sort_key prop_optional (type_properties t)).
                        prop_name q = prop_name p \<longrightarrow> q = p"
      by (auto simp: distinct_map dest: inj_onD)
    from h have run: "exec_to_json_list inst (map (\<lambda>q. generate_to_json q ''json'' True)
                       (sort_key prop_optional (type_properties t))) [] = Inr json"
      by (simp add: run_to_json_def tj)
    from h have n: "map_of inst (py_name p) = Some PNone" by simp
    show ?thesis
      by (rule exec_list_absent [OF assms n inj run]) simp
  qed
  have b: "eval_from_json rt e json = Inr PNone"
    if h: "generate_from_json p ''json'' = Inr e
            \<and> (map_of json (prop_name p) = None \<or> map_of json (prop_name p) = Some PNone)"
    for rt e json
  proof -
    from h assms obtain e' where "e = IfPresent ''json'' (prop_name p) e'"
      by (auto simp: generate_from_json_def split: sum.splits)
    with h show ?thesis by auto
  qed
  from a b show ?thesis by blast
qed

lemma cookie_code:
  "generate_class_code cookie_patched =
   Inr \<lparr>gc_name = ''Cookie'',
        gc_fields =
          [(''name'', ''str'', False), (''value'', ''str'', False),
           (''expires'', ''typing.Optional[float]'', True)],
        gc_to_json =
          [Assign ''json'' ''name'' (Value (SelfAttr ''name'')),
           Assign ''json'' ''value'' (Value (SelfAttr ''value'')),
           IfNotNone (SelfAttr ''expires'')
            (Assign ''json'' ''expires'' (Value (SelfAttr ''expires'')))],
        gc_from_json =
          [(''name'', Cons (Some ''str'') ''json'' ''name''),
           (''value'', Cons (Some ''str'') ''json'' ''value''),
           (''expires'',
            IfPresent ''json'' ''expires'' (Cons (Some ''float'') ''json'' ''expires''))]\<rparr>"
  by (simp add: generate_class_code_def cookie_patched_def cookie_type_def mk_property_def
        generate_decl_def py_annotation_def get_annotation_def CdpPrimitiveType_def
        optional_annotation_def generate_from_json_def get_constructor_def generate_to_json_def
        py_name_def snake_case_examples Let_def)

lemma cookie_to_json: "run_to_json (projr (generate_class_code cookie_patched))
        [(''name'', PStr ''sid''), (''value'', PStr ''1''), (''expires'', PNone)]
      = Inr [(''name'', PStr ''sid''), (''value'', PStr ''1'')]"
  by (simp add: cookie_code run_to_json_def)

text \<open>
  C4 on the patched \<open>Network.Cookie\<close>, whose \<open>expires\<close> is optional.
\<close>

theorem optional_absent_or_null_witness:
  "run_to_json (projr (generate_class_code cookie_patched))
        [(''name'', PStr ''sid''), (''value'', PStr ''1''), (''expires'', PNone)]
      = Inr [(''name'', PStr ''sid''), (''value'', PStr ''1'')]
   \<and> map_of (projr (run_to_json (projr (generate_class_code cookie_patched))
        [(''name'', PStr ''sid''), (''value'', PStr ''1''), (''expires'', PNone)])) ''expires'' = None
   \<and> eval_from_json example_runtime (projr (generate_from_json expires_patched ''json''))
        [(''name'', PStr ''sid''), (''expires'', PNone)] = Inr PNone"
proof -
  have o: "prop_optional expires_patched"
    by (simp add: expires_patched_def mk_property_def)
  have m: "expires_patched \<in> set (type_properties cookie_patched)
           \<and> distinct (map prop_name (type_properties cookie_patched))"
    by (simp add: expires_patched_def cookie_patched_def cookie_type_def mk_property_def)
  have g: "generate_class_code cookie_patched = Inr (projr (generate_class_code cookie_patched))"
    by (simp add: cookie_code)
  have n: "py_name expires_patched = ''expires''"
    by (simp add: py_name_def expires_patched_def mk_property_def snake_case_examples)
  have r: "run_to_json (projr (generate_class_code cookie_patched))
             [(''name'', PStr ''sid''), (''value'', PStr ''1''), (''expires'', PNone)]
           = Inr (projr (run_to_json (projr (generate_class_code cookie_patched))
             [(''name'', PStr ''sid''), (''value'', PStr ''1''), (''expires'', PNone)]))"
    by (simp add: cookie_to_json)
  have e: "generate_from_json expires_patched ''json''
           = Inr (projr (generate_from_json expires_patched ''json''))"
    by (simp add: generate_from_json_def get_constructor_def CdpPrimitiveType_def
          expires_patched_def mk_property_def)
  note both = optional_absent_or_null [OF o]
  from both have A: "p' \<in> set (type_properties t) \<and> distinct (map prop_name (type_properties t))
            \<and> generate_class_code t = Inr c \<and> map_of inst (py_name expires_patched) = Some PNone
            \<and> run_to_json c inst = Inr json
            \<Longrightarrow> p' = expires_patched \<Longrightarrow> map_of json (prop_name expires_patched) = None"
    for p' t c inst json
    by blast
  have a: "map_of (projr (run_to_json (projr (generate_class_code cookie_patched))
        [(''name'', PStr ''sid''), (''value'', PStr ''1''), (''expires'', PNone)])) (prop_name expires_patched) = None"
    by (rule A [of expires_patched cookie_patched "projr (generate_class_code cookie_patched)"
                   "[(''name'', PStr ''sid''), (''value'', PStr ''1''), (''expires'', PNone)]"])
       (use m g n r in simp_all)
  have pn: "prop_name expires_patched = ''expires''"
    by (simp add: expires_patched_def mk_property_def)
  from both e
  have b: "eval_from_json example_runtime (projr (generate_from_json expires_patched ''json''))
        [(''name'', PStr ''sid''), (''expires'', PNone)] = Inr PNone"
    by (simp add: pn)
  from a b show ?thesis by (simp add: cookie_to_json pn)
qed

text \<open>
  C4, counterexample. The claim says that a wire dictionary with the optional key
  present and null is rejected; \<open>from_json\<close> of the patched \<open>Network.Cookie\<close>
  decodes it, with the field \<open>expires\<close> set to \<open>None\<close>.
\<close>

theorem optional_null_decoded:
  "run_from_json example_runtime (projr (generate_class_code cookie_patched))
        [(''name'', PStr ''sid''), (''value'', PStr ''1''), (''expires'', PNone)]
      = Inr [(''name'', PStr ''sid''), (''value'', PStr ''1''), (''expires'', PNone)]"
  by (simp add: cookie_code run_from_json_def example_runtime_def apply_cons_def)





section \<open>Properties of the selector and text queries\<close>

lemma query_selector_all_first_failure:
  assumes "\<not> root_last root" and "root_doc root = Some doc"
      and "send (QuerySelectorAll (node_id doc) selector) w = (Inl (ProtocolException m), w1)"
      and "could_not_find_node m"
      and "update_root root w1 = (Inr (), root', w2)"
  shows "query_selector_all tab selector (Some root) w
         = query_selector_all tab selector (Some (set_root_last True root')) w2"
  using assms by simp

lemma query_selector_all_marked_failure:
  assumes "root_last root" and "root_doc root = Some doc"
      and "send (QuerySelectorAll (node_id doc) selector) w = (Inl (ProtocolException m), w1)"
      and "could_not_find_node m"
  shows "query_selector_all tab selector (Some root) w
         = (Inr [], Some (set_root_last False root), w1)"
  using assms by simp

lemma query_selector_all_success_keeps_marker:
  assumes "root_doc root = Some doc"
      and "send (QuerySelectorAll (node_id doc) selector) w = (Inr (RNodeIds ids), w1)"
  shows "query_selector_all tab selector (Some root) w
         = (elements_of tab doc ids, Some root, w1)"
  using assms by simp


lemma min_by_first_least:
  "\<exists>before e after. b # xs = before @ e # after \<and> min_by f b xs = e
     \<and> (\<forall>x \<in> set before. f e < f x) \<and> (\<forall>x \<in> set after. f e \<le> f x)"
proof (induction xs arbitrary: b)
  case Nil
  have "[b] = [] @ b # []" by simp
  then show ?case by fastforce
next
  case (Cons x xs)
  show ?case
  proof (cases "f x < f b")
    case True
    from Cons.IH [of x] obtain before e after where
      d: "x # xs = before @ e # after" and m: "min_by f x xs = e"
      and lt: "\<forall>y \<in> set before. f e < f y" and le: "\<forall>y \<in> set after. f e \<le> f y"
      by blast
    have ex: "f e \<le> f x"
    proof (cases before)
      case Nil
      with d show ?thesis by simp
    next
      case (Cons y ys)
      with d lt show ?thesis by auto
    qed
    have "b # x # xs = (b # before) @ e # after" using d by simp
    moreover have "min_by f b (x # xs) = e" using True m by simp
    moreover have "\<forall>y \<in> set (b # before). f e < f y" using lt ex True by auto
    ultimately show ?thesis using le by blast
  next
    case False
    from Cons.IH [of b] obtain before e after where
      d: "b # xs = before @ e # after" and m: "min_by f b xs = e"
      and lt: "\<forall>y \<in> set before. f e < f y" and le: "\<forall>y \<in> set after. f e \<le> f y"
      by blast
    have mm: "min_by f b (x # xs) = e" using False m by simp
    show ?thesis
    proof (cases before)
      case Nil
      with d have eb: "e = b" and xa: "xs = after" by simp_all
      have "b # x # xs = [] @ e # (x # after)" using eb xa by simp
      moreover have "\<forall>y \<in> set (x # after). f e \<le> f y" using le False eb by auto
      ultimately show ?thesis using mm by fastforce
    next
      case (Cons y ys)
      with d have yb: "y = b" and xs: "xs = ys @ e # after" by simp_all
      from lt Cons yb have eb: "f e < f b" by simp
      have "b # x # xs = (b # x # ys) @ e # after" using xs by simp
      moreover have "\<forall>z \<in> set (b # x # ys). f e < f z" using lt Cons eb False by auto
      ultimately show ?thesis using mm le by blast
    qed
  qed
qed

text \<open>
  C8 (as amended). When the text search returns a non-empty list, the best-match
  call returns an element of the list whose full subtree text length is closest
  to the length of the text as it was passed to \<open>find_element_by_text\<close>, which
  does not strip it: every item before the returned one in search-result order is
  strictly farther, and no item after it is closer.
\<close>

theorem best_match_first_closest:
  assumes "find_elements_by_text tab text w = (Inr items, w')" and "items \<noteq> []"
  shows "\<exists>before e after. items = before @ e # after
           \<and> find_element_by_text tab text True flag w = (Inr (Some e), w')
           \<and> (\<forall>x \<in> set before. length_distance text e < length_distance text x)
           \<and> (\<forall>x \<in> set after. length_distance text e \<le> length_distance text x)"
proof -
  from assms(2) obtain first others where i: "items = first # others"
    by (cases items) auto
  from min_by_first_least [of first others "length_distance text"]
  obtain before e after where d: "first # others = before @ e # after"
    and m: "min_by (length_distance text) first others = e"
    and lt: "\<forall>x \<in> set before. length_distance text e < length_distance text x"
    and le: "\<forall>x \<in> set after. length_distance text e \<le> length_distance text x"
    by blast
  have "find_element_by_text tab text True flag w = (Inr (Some e), w')"
    using assms(1) i m by (simp add: find_element_by_text_def)
  with d i lt le show ?thesis by blast
qed

lemma tie_search:
  "find_elements_by_text 1 ''abcd'' (search_browser [6, 4])
   = (Inr [division_handle, paragraph_handle],
      \<lparr>w_responses = [],
       w_sent = [GetDocument, PerformSearch ''abcd'', GetSearchResults ''s'' 0 2,
                 DiscardSearchResults ''s'', DomDisable]\<rparr>)"
  by code_simp

lemma tie_distances:
  "length_distance ''abcd'' division_handle = 2 \<and> length_distance ''abcd'' paragraph_handle = 2"
  by code_simp

text \<open>
  C8 on a tie: the search for "abcd" returns the division (text "ab cd!", six
  characters) and then the paragraph (text "ab", two characters); both are at
  distance two, and the division, first in search-result order, is returned.
\<close>

theorem best_match_first_closest_witness:
  "fst (find_element_by_text 1 ''abcd'' True True (search_browser [6, 4]))
     = Inr (Some division_handle)
   \<and> length_distance ''abcd'' division_handle = length_distance ''abcd'' paragraph_handle"
proof -
  have ne: "[division_handle, paragraph_handle] \<noteq> []" by simp
  from best_match_first_closest [OF tie_search ne, of True]
  obtain before e after where d: "[division_handle, paragraph_handle] = before @ e # after"
    and r: "fst (find_element_by_text 1 ''abcd'' True True (search_browser [6, 4])) = Inr (Some e)"
    and lt: "\<forall>x \<in> set before. length_distance ''abcd'' e < length_distance ''abcd'' x"
    by fastforce
  from d have "(before = [] \<and> e = division_handle)
             \<or> (before = [division_handle] \<and> e = paragraph_handle)"
    by (auto simp: Cons_eq_append_conv)
  with lt tie_distances have "e = division_handle" by auto
  with r tie_distances show ?thesis by simp
qed

text \<open>
  C8, counterexample. The text \<open>"  ab  "\<close> has six characters, two when stripped.
  The search (run with the stripped text) returns the division (six characters
  of text) and the paragraph (two). The claim measures against the stripped
  text, which makes the paragraph the closest element; the code measures against
  the text as passed and returns the division.
\<close>

theorem best_match_uses_unstripped_length:
  "fst (find_elements_by_text 1 ''  ab  '' (search_browser [6, 4]))
     = Inr [division_handle, paragraph_handle]
   \<and> fst (find_element_by_text 1 ''  ab  '' True True (search_browser [6, 4]))
     = Inr (Some division_handle)
   \<and> length_distance (strip ''  ab  '') paragraph_handle
     < length_distance (strip ''  ab  '') division_handle"
  by code_simp

text \<open>
  C9, the code at the failing input. \<open>find_element_by_text\<close> never reads
  \<open>return_enclosing_element\<close>: both values of the flag give the same result. On
  the example document the search for "ab" returns the text node 4; with the
  flag set to \<open>False\<close> the call still returns the enclosing paragraph (node 3, an
  element node), not the text node.
\<close>

theorem return_enclosing_element_ignored:
  "find_element_by_text tab text best_match False w = find_element_by_text tab text best_match True w
   \<and> filter_recurse example_document (\<lambda>n. node_id n = 4) = Some (text_node 4 3 ''ab'')
   \<and> node_type (text_node 4 3 ''ab'') = 3
   \<and> fst (find_element_by_text 1 ''ab'' False False (search_browser [4]))
     = Inr (Some paragraph_handle)
   \<and> node_id (elem_node paragraph_handle) = 3
   \<and> node_type (elem_node paragraph_handle) = 1"
proof -
  have a: "find_element_by_text tab text best_match False w
           = find_element_by_text tab text best_match True w"
    by (simp add: find_element_by_text_def)
  have b: "filter_recurse example_document (\<lambda>n. node_id n = 4) = Some (text_node 4 3 ''ab'')
   \<and> node_type (text_node 4 3 ''ab'') = 3
   \<and> fst (find_element_by_text 1 ''ab'' False False (search_browser [4]))
     = Inr (Some paragraph_handle)
   \<and> node_id (elem_node paragraph_handle) = 3
   \<and> node_type (elem_node paragraph_handle) = 1"
    by code_simp
  from a b show ?thesis by simp
qed



lemma update_served:
  assumes "w_responses w = RDocument d # RRemoteObject obj # rest"
  shows "update e w
         = (Inr (), revalidated e d obj,
            \<lparr>w_responses = rest,
             w_sent = w_sent w @ [GetDocument,
                                  ResolveNodeBackend (backend_node_id (elem_node (revalidated e d obj)))]\<rparr>)"
  using assms
  by (cases "filter_recurse d (\<lambda>n. backend_node_id n = backend_node_id (elem_node e))")
     (simp_all add: update_def send_def revalidated_def Let_def)

lemma revalidated_last: "elem_last (revalidated e d obj) = elem_last e"
  by (cases "filter_recurse d (\<lambda>n. backend_node_id n = backend_node_id (elem_node e))")
     (simp_all add: revalidated_def Let_def)

text \<open>
  X1. A selector query rooted at an element handle on which \<open>__last\<close> is not
  set, answered with "could not find node": the handle is revalidated exactly
  once (one \<open>DOM.getDocument\<close> and one \<open>DOM.resolveNode\<close>) and the same query is
  sent once more. When the retried query fails the same way, the call returns the
  empty list and \<open>__last\<close> is cleared; when it succeeds, the call returns the
  elements found and \<open>__last\<close> stays set on the handle.
\<close>

theorem fresh_handle_retries_once:
  assumes fresh: "\<not> elem_last h"
      and doc: "root_doc (RootElement h) = Some doc"
      and doc': "root_doc (RootElement (revalidated h d obj)) = Some doc'"
      and m1: "could_not_find_node (Some m1)"
      and script: "w_responses w = RError (Some m1) # RDocument d # RRemoteObject obj # answer # rest"
  shows "(\<forall>m2. answer = RError (Some m2) \<and> could_not_find_node (Some m2) \<longrightarrow>
            query_selector_all tab selector (Some (RootElement h)) w
            = (Inr [], Some (RootElement ((revalidated h d obj)\<lparr>elem_last := False\<rparr>)),
               \<lparr>w_responses = rest,
                w_sent = w_sent w @
                  [QuerySelectorAll (node_id doc) selector, GetDocument,
                   ResolveNodeBackend (backend_node_id (elem_node (revalidated h d obj))),
                   QuerySelectorAll (node_id doc') selector]\<rparr>))
       \<and> (\<forall>ids. answer = RNodeIds ids \<longrightarrow>
            query_selector_all tab selector (Some (RootElement h)) w
            = (elements_of tab doc' ids,
               Some (RootElement ((revalidated h d obj)\<lparr>elem_last := True\<rparr>)),
               \<lparr>w_responses = rest,
                w_sent = w_sent w @
                  [QuerySelectorAll (node_id doc) selector, GetDocument,
                   ResolveNodeBackend (backend_node_id (elem_node (revalidated h d obj))),
                   QuerySelectorAll (node_id doc') selector]\<rparr>))"
proof -
  let ?w1 = "\<lparr>w_responses = RDocument d # RRemoteObject obj # answer # rest,
              w_sent = w_sent w @ [QuerySelectorAll (node_id doc) selector]\<rparr>"
  let ?h1 = "revalidated h d obj"
  let ?w2 = "\<lparr>w_responses = answer # rest,
              w_sent = w_sent w @ [QuerySelectorAll (node_id doc) selector, GetDocument,
                   ResolveNodeBackend (backend_node_id (elem_node ?h1))]\<rparr>"
  have s1: "send (QuerySelectorAll (node_id doc) selector) w = (Inl (ProtocolException (Some m1)), ?w1)"
    using script by (cases w) (simp add: send_def)
  have u: "update h ?w1 = (Inr (), ?h1, ?w2)"
    using update_served [of ?w1 d obj "answer # rest" h] by simp
  have first: "query_selector_all tab selector (Some (RootElement h)) w
        = query_selector_all tab selector (Some (RootElement (?h1\<lparr>elem_last := True\<rparr>))) ?w2"
    using fresh doc s1 m1 u by simp
  have doc2: "root_doc (RootElement (?h1\<lparr>elem_last := True\<rparr>)) = Some doc'"
    using doc' by (auto simp: root_doc_def split: if_splits)
  have a: "query_selector_all tab selector (Some (RootElement h)) w
            = (Inr [], Some (RootElement (?h1\<lparr>elem_last := False\<rparr>)),
               \<lparr>w_responses = rest,
                w_sent = w_sent w @
                  [QuerySelectorAll (node_id doc) selector, GetDocument,
                   ResolveNodeBackend (backend_node_id (elem_node ?h1)),
                   QuerySelectorAll (node_id doc') selector]\<rparr>)"
    if "answer = RError (Some m2) \<and> could_not_find_node (Some m2)" for m2
    using that doc2 by (subst first) (simp add: send_def)
  have b: "query_selector_all tab selector (Some (RootElement h)) w
            = (elements_of tab doc' ids,
               Some (RootElement (?h1\<lparr>elem_last := True\<rparr>)),
               \<lparr>w_responses = rest,
                w_sent = w_sent w @
                  [QuerySelectorAll (node_id doc) selector, GetDocument,
                   ResolveNodeBackend (backend_node_id (elem_node ?h1)),
                   QuerySelectorAll (node_id doc') selector]\<rparr>)"
    if "answer = RNodeIds ids" for ids
    using that doc2 by (subst first) (simp add: send_def)
  from a b show ?thesis by blast
qed

text \<open>X1 on the division handle, with both queries failing.\<close>

theorem fresh_handle_retries_once_witness:
  "query_selector_all 1 ''x'' (Some (RootElement division_handle))
      (stale_browser (RError (Some ''Could not find node with given id'')))
   = (Inr [], Some (RootElement (revalidated_handle False)),
      \<lparr>w_responses = [],
       w_sent = [QuerySelectorAll 5 ''x'', GetDocument, ResolveNodeBackend (Some 105),
                 QuerySelectorAll 5 ''x'']\<rparr>)"
proof -
  have fresh: "\<not> elem_last division_handle"
    by code_simp
  have doc: "root_doc (RootElement division_handle)
             = Some (element_node 5 (Some 2) ''DIV'' [text_node 6 5 ''ab cd!''])"
    by code_simp
  have doc': "root_doc (RootElement (revalidated division_handle example_document (PStr ''obj'')))
             = Some (element_node 5 (Some 2) ''DIV'' [text_node 6 5 ''ab cd!''])"
    by code_simp
  have m: "could_not_find_node (Some ''Could not find node with given id'')"
    by code_simp
  have script: "w_responses (stale_browser (RError (Some ''Could not find node with given id'')))
      = RError (Some ''Could not find node with given id'') # RDocument example_document
        # RRemoteObject (PStr ''obj'') # RError (Some ''Could not find node with given id'') # []"
    by (simp add: stale_browser_def browser_def)
  have ids: "node_id (element_node 5 (Some 2) ''DIV'' [text_node 6 5 ''ab cd!'']) = 5
     \<and> backend_node_id (elem_node (revalidated division_handle example_document (PStr ''obj''))) = Some 105
     \<and> w_sent (stale_browser (RError (Some ''Could not find node with given id''))) = []
     \<and> (revalidated division_handle example_document (PStr ''obj''))\<lparr>elem_last := False\<rparr>
         = revalidated_handle False"
    by code_simp
  from fresh_handle_retries_once [OF fresh doc doc' m script, of 1 "''x''"] m ids
  show ?thesis by simp
qed

lemma create_Some:
  "create (Some n) tab tree =
     Inr \<lparr> elem_tab = tab, elem_node = n, elem_tree = tree,
           elem_remote_object = None, elem_attrs = make_attrs n [], elem_last = False \<rparr>"
  by (simp add: create_def)

lemma revalidated_tree: "elem_tree (revalidated e d obj) = Some d"
  by (cases "filter_recurse d (\<lambda>n. backend_node_id n = backend_node_id (elem_node e))")
     (simp_all add: revalidated_def Let_def)

text \<open>
  X2. A text search result that is a text node (node type 3) of the fetched
  document gives its parent element when the parent is in the document; when it
  is not, the element is updated, and if the parent is still not found the text
  node itself is the result.
\<close>

theorem text_node_gives_parent:
  assumes found: "filter_recurse doc (\<lambda>n. node_id n = nid) = Some node"
      and is_text: "node_type node = 3"
  shows "(\<forall>p. filter_recurse doc (\<lambda>n. Some (node_id n) = parent_id node) = Some p \<longrightarrow>
            text_results tab doc [nid] w = (Inr [projr (create (Some p) tab (Some doc))], w))
       \<and> (\<forall>d obj rest.
            filter_recurse doc (\<lambda>n. Some (node_id n) = parent_id node) = None
            \<and> w_responses w = RDocument d # RRemoteObject obj # rest
            \<and> parent (revalidated (projr (create (Some node) tab (Some doc))) d obj) = Inr None
            \<longrightarrow> fst (text_results tab doc [nid] w)
                = Inr [revalidated (projr (create (Some node) tab (Some doc))) d obj])"
proof -
  define elem where "elem = projr (create (Some node) tab (Some doc))"
  have c: "create (Some node) tab (Some doc) = Inr elem"
    by (simp add: elem_def create_Some)
  have n: "elem_node elem = node" and t: "elem_tree elem = Some doc" and tb: "elem_tab elem = tab"
    by (simp_all add: elem_def create_Some)
  have a: "text_results tab doc [nid] w = (Inr [projr (create (Some p) tab (Some doc))], w)"
    if "filter_recurse doc (\<lambda>n. Some (node_id n) = parent_id node) = Some p" for p
  proof -
    from that have "parent elem = Inr (Some (projr (create (Some p) tab (Some doc))))"
      by (simp add: parent_def n t tb create_Some)
    with found c is_text n show ?thesis by simp
  qed
  have b: "fst (text_results tab doc [nid] w) = Inr [revalidated elem d obj]"
    if h: "filter_recurse doc (\<lambda>n. Some (node_id n) = parent_id node) = None
            \<and> w_responses w = RDocument d # RRemoteObject obj # rest
            \<and> parent (revalidated elem d obj) = Inr None" for d obj rest
  proof -
    from h have p0: "parent elem = Inr None"
      by (simp add: parent_def n t)
    from h have u: "update elem w = (Inr (), revalidated elem d obj,
            \<lparr>w_responses = rest,
             w_sent = w_sent w @ [GetDocument,
                                  ResolveNodeBackend (backend_node_id (elem_node (revalidated elem d obj)))]\<rparr>)"
      using update_served by blast
    from h have p1: "parent (revalidated elem d obj) = Inr None" by simp
    from found c is_text n p0 u p1 show ?thesis by simp
  qed
  from a b show ?thesis unfolding elem_def by blast
qed

text \<open>
  X2 on the text node of the example paragraph, and on a text node directly
  below the document root, whose parent is never found.
\<close>

theorem text_node_gives_parent_witness:
  "text_results 1 example_document [4] (browser []) = (Inr [paragraph_handle], browser [])
   \<and> fst (text_results 1 orphan_document [7]
           (browser [RDocument orphan_document, RRemoteObject (PStr ''obj'')]))
     = Inr [revalidated (projr (create (Some (text_node 7 1 ''x'')) 1 (Some orphan_document)))
              orphan_document (PStr ''obj'')]
   \<and> node_type (elem_node (revalidated (projr (create (Some (text_node 7 1 ''x'')) 1
          (Some orphan_document))) orphan_document (PStr ''obj''))) = 3"
proof -
  have f1: "filter_recurse example_document (\<lambda>n. node_id n = 4) = Some (text_node 4 3 ''ab'')"
    by code_simp
  have t1: "node_type (text_node 4 3 ''ab'') = 3"
    by code_simp
  have p1: "filter_recurse example_document (\<lambda>n. Some (node_id n) = parent_id (text_node 4 3 ''ab''))
            = Some (element_node 3 (Some 2) ''P'' [text_node 4 3 ''ab''])"
    by code_simp
  from text_node_gives_parent [OF f1 t1, of 1 "browser []"] p1
  have a: "text_results 1 example_document [4] (browser []) = (Inr [paragraph_handle], browser [])"
    by (simp add: paragraph_handle_def)
  have f2: "filter_recurse orphan_document (\<lambda>n. node_id n = 7) = Some (text_node 7 1 ''x'')"
    by code_simp
  have t2: "node_type (text_node 7 1 ''x'') = 3"
    by code_simp
  have p2: "filter_recurse orphan_document (\<lambda>n. Some (node_id n) = parent_id (text_node 7 1 ''x'')) = None
     \<and> w_responses (browser [RDocument orphan_document, RRemoteObject (PStr ''obj'')])
        = RDocument orphan_document # RRemoteObject (PStr ''obj'') # []
     \<and> parent (revalidated (projr (create (Some (text_node 7 1 ''x'')) 1 (Some orphan_document)))
          orphan_document (PStr ''obj'')) = Inr None"
    by code_simp
  from text_node_gives_parent [OF f2 t2, of 1 "browser [RDocument orphan_document, RRemoteObject (PStr ''obj'')]"] p2
  have b: "fst (text_results 1 orphan_document [7]
           (browser [RDocument orphan_document, RRemoteObject (PStr ''obj'')]))
     = Inr [revalidated (projr (create (Some (text_node 7 1 ''x'')) 1 (Some orphan_document)))
              orphan_document (PStr ''obj'')]"
    by blast
  have c: "node_type (elem_node (revalidated (projr (create (Some (text_node 7 1 ''x'')) 1
          (Some orphan_document))) orphan_document (PStr ''obj''))) = 3"
    by code_simp
  from a b c show ?thesis by simp
qed


end
